theory Spec2Isabelle
  imports Complex_Main "HOL-Library.Multiset"
begin

section \<open>Data model\<close>

text \<open>
  The records follow \<^verbatim>\<open>models/recipe.py\<close>, \<^verbatim>\<open>models/user_preferences.py\<close> and
  \<^verbatim>\<open>models/meal_plan.py\<close>. Python's \<^verbatim>\<open>float\<close> is modelled by the exact reals, Python's
  unbounded \<^verbatim>\<open>int\<close> by \<open>int\<close>, \<^verbatim>\<open>str\<close> by \<open>string\<close>, \<^verbatim>\<open>Optional[int]\<close> by \<open>int option\<close>.
  Field names that several classes share carry a prefix.
\<close>

record ingredient =
  ing_name :: string
  amount :: real
  unit :: string
  cost_per_unit :: real
  calories_per_unit :: real
  protein_per_unit :: real
  carbs_per_unit :: real
  fat_per_unit :: real

record recipe =
  recipe_id :: string
  recipe_name :: string
  description :: string
  ingredients :: "ingredient list"
  steps :: "string list"
  cooking_time_min :: int
  difficulty_level :: string
  cuisine_type :: string
  recipe_dietary_restrictions :: "string list"
  allergens :: "string list"
  total_calories :: real
  total_protein_g :: real
  total_carbs_g :: real
  total_fat_g :: real
  total_cost :: real

datatype DietaryRestriction =
  VEGETARIAN | VEGAN | KETO | PALEO | HALAL | KOSHER | GLUTEN_FREE | DAIRY_FREE

datatype CookingSkillLevel = BEGINNER | INTERMEDIATE | ADVANCED

record user_preferences =
  dietary_restrictions :: "DietaryRestriction list"
  allergies :: "string list"
  dislikes :: "string list"
  target_protein_g :: "int option"
  target_carbs_g :: "int option"
  target_fat_g :: "int option"
  target_calories :: "int option"
  preferred_cuisines :: "string list"
  cooking_skill_level :: CookingSkillLevel
  max_cooking_time_min :: int
  weekly_budget :: real
  max_repeats_per_week :: int

record meal =
  day :: string
  meal_type :: string
  meal_recipe :: recipe

text \<open>
  \<^verbatim>\<open>DailyMeals.date\<close> is \<^verbatim>\<open>date.today() + timedelta(days=...)\<close>; the model keeps the number
  of days added to today.
\<close>

record daily_meals =
  date_offset :: nat
  meals :: "meal list"

section \<open>Weekly scheduler (\<^verbatim>\<open>services/meal_planner_service.py\<close>)\<close>

text \<open>
  \<^verbatim>\<open>_score_recipe_for_assignment\<close>: the loop over the recipe's ingredients adds one to
  \<^verbatim>\<open>reuse_bonus\<close> for every ingredient whose name is a key of the usage tracker; the other
  two terms are the constant zero.
\<close>

type_synonym usage_tracker = "string \<rightharpoonup> int"

definition reuse_bonus :: "recipe \<Rightarrow> usage_tracker \<Rightarrow> int" where
  "reuse_bonus r tracker =
     fold (\<lambda>ing b. if tracker (ing_name ing) \<noteq> None then b + 1 else b) (ingredients r) 0"

definition score_recipe_for_assignment :: "recipe \<Rightarrow> usage_tracker \<Rightarrow> user_preferences \<Rightarrow> int" where
  "score_recipe_for_assignment r tracker prefs =
     (let variety_penalty = 0; macro_alignment = 0
      in reuse_bonus r tracker * 10 - variety_penalty * 5 + macro_alignment * 2)"


text \<open>
  \<^verbatim>\<open>_create_daily_meals\<close>. The selection is expanded into one list entry per serving
  (\<^verbatim>\<open>range(int(servings))\<close> is empty for a count below one).
\<close>

definition expand_servings :: "(recipe \<times> int) list \<Rightarrow> recipe list" where
  "expand_servings optimized_plan =
     fold (\<lambda>(r, servings) recipe_assignments. recipe_assignments @ replicate (nat servings) r)
       optimized_plan []"

definition days_of_week :: "string list" where
  "days_of_week =
     [''Monday'', ''Tuesday'', ''Wednesday'', ''Thursday'', ''Friday'', ''Saturday'', ''Sunday'']"

definition meal_types :: "string list" where
  "meal_types = [''breakfast'', ''lunch'', ''dinner'']"

text \<open>
  \<^verbatim>\<open>scored_recipes.sort(key=lambda x: x[0], reverse=True)\<close>: Python's sort is stable, and
  with \<^verbatim>\<open>reverse=True\<close> it reverses the list, sorts it stably in ascending order and
  reverses the result, so that entries with equal keys keep their original order.
\<close>

definition sort_reverse :: "('a \<Rightarrow> int) \<Rightarrow> 'a list \<Rightarrow> 'a list" where
  "sort_reverse key xs = rev (sort_key key (rev xs))"

definition update_tracker :: "recipe \<Rightarrow> usage_tracker \<Rightarrow> usage_tracker" where
  "update_tracker selected_recipe tracker =
     fold (\<lambda>ing t. case t (ing_name ing) of
                      Some c \<Rightarrow> t(ing_name ing \<mapsto> c + 1)
                    | None \<Rightarrow> t(ing_name ing \<mapsto> 1))
       (ingredients selected_recipe) tracker"

text \<open>
  The state of the assignment loop: the occurrences not yet placed, the slot table and
  the usage tracker. \<open>assign_slot\<close> is the body of the inner loop for one \<^verbatim>\<open>meal_pos\<close>.
\<close>

type_synonym sched_state = "recipe list \<times> recipe option list \<times> usage_tracker"

definition assign_slot :: "user_preferences \<Rightarrow> nat \<Rightarrow> sched_state \<Rightarrow> sched_state" where
  "assign_slot prefs meal_pos st =
     (case st of (recipe_assignments, assigned_recipes, tracker) \<Rightarrow>
        if recipe_assignments \<noteq> [] then
          (let scored_recipes =
                 map (\<lambda>(i, r). (score_recipe_for_assignment r tracker prefs, i, r))
                   (enumerate 0 recipe_assignments);
               scored_recipes = sort_reverse fst scored_recipes
           in case scored_recipes of
                [] \<Rightarrow> st
              | (_, recipe_idx, selected_recipe) # _ \<Rightarrow>
                  (take recipe_idx recipe_assignments @ drop (Suc recipe_idx) recipe_assignments,
                   assigned_recipes[meal_pos := Some selected_recipe],
                   update_tracker selected_recipe tracker))
        else st)"

definition assign_all :: "user_preferences \<Rightarrow> recipe list \<Rightarrow> sched_state" where
  "assign_all prefs recipe_assignments =
     fold (\<lambda>day_idx st. fold (assign_slot prefs) [day_idx * 3 ..< day_idx * 3 + 3] st)
       [0 ..< length days_of_week]
       (recipe_assignments, replicate (length days_of_week * 3) None, Map.empty)"

definition assigned_slots :: "(recipe \<times> int) list \<Rightarrow> user_preferences \<Rightarrow> recipe option list" where
  "assigned_slots optimized_plan prefs =
     fst (snd (assign_all prefs (expand_servings optimized_plan)))"

definition unplaced :: "(recipe \<times> int) list \<Rightarrow> user_preferences \<Rightarrow> recipe list" where
  "unplaced optimized_plan prefs = fst (assign_all prefs (expand_servings optimized_plan))"

text \<open>
  The conversion loop. \<open>today_weekday\<close> is \<^verbatim>\<open>date.today().weekday()\<close>, a number from 0
  (Monday) to 6.
\<close>

definition day_meals :: "recipe option list \<Rightarrow> nat \<Rightarrow> string \<Rightarrow> meal list" where
  "day_meals assigned_recipes day_idx d =
     concat (map (\<lambda>(meal_pos_offset, mt).
                    let meal_idx = day_idx * 3 + meal_pos_offset in
                    if meal_idx < length assigned_recipes then
                      (case assigned_recipes ! meal_idx of
                         Some r \<Rightarrow> [\<lparr>day = d, meal_type = mt, meal_recipe = r\<rparr>]
                       | None \<Rightarrow> [])
                    else [])
              (enumerate 0 meal_types))"

definition create_daily_meals ::
  "nat \<Rightarrow> (recipe \<times> int) list \<Rightarrow> user_preferences \<Rightarrow> daily_meals list" where
  "create_daily_meals today_weekday optimized_plan prefs =
     (let assigned_recipes = assigned_slots optimized_plan prefs in
      map (\<lambda>(day_idx, d).
             \<lparr>date_offset = day_idx + (7 - today_weekday) mod 7,
              meals = day_meals assigned_recipes day_idx d\<rparr>)
        (enumerate 0 days_of_week))"

section \<open>Recipe selector (\<^verbatim>\<open>services/optimization_service.py\<close>)\<close>

text \<open>
  \<^verbatim>\<open>optimize_meal_plan\<close> hands an integer program to the OR-Tools solver, which is not part
  of the repository. The model builds the program as data, exactly as the calls to
  \<^verbatim>\<open>IntVar\<close>, \<^verbatim>\<open>Add\<close> and \<^verbatim>\<open>SetCoefficient\<close> do, and takes the solver as a parameter:
  a function from the program to the status of \<^verbatim>\<open>Solve()\<close> and the \<^verbatim>\<open>solution_value()\<close>
  of each variable.
\<close>

datatype result_status =
  OPTIMAL | FEASIBLE | INFEASIBLE | UNBOUNDED | ABNORMAL | MODEL_INVALID | NOT_SOLVED

datatype relation = GE | LE

datatype linear_constraint = Constraint "real list" relation real

record mip_model =
  int_vars :: "(real \<times> real) list"
  constraints :: "linear_constraint list"
  objective_coefficients :: "real list"

type_synonym solution = "nat \<Rightarrow> real"

type_synonym solver = "mip_model \<Rightarrow> result_status \<times> solution"

definition linear_value :: "real list \<Rightarrow> solution \<Rightarrow> real" where
  "linear_value cs x = (\<Sum>i\<leftarrow>[0..<length cs]. x i * cs ! i)"

fun constraint_holds :: "solution \<Rightarrow> linear_constraint \<Rightarrow> bool" where
  "constraint_holds x (Constraint cs GE b) = (linear_value cs x \<ge> b)"
| "constraint_holds x (Constraint cs LE b) = (linear_value cs x \<le> b)"

text \<open>
  What the solver promises when it reports \<^verbatim>\<open>OPTIMAL\<close> or \<^verbatim>\<open>FEASIBLE\<close>: every variable
  has an integral value within its bounds and every constraint holds.
\<close>

definition satisfies_model :: "mip_model \<Rightarrow> solution \<Rightarrow> bool" where
  "satisfies_model m x =
     (list_all (\<lambda>i. real_of_int \<lfloor>x i\<rfloor> = x i
                     \<and> fst (int_vars m ! i) \<le> x i \<and> x i \<le> snd (int_vars m ! i))
        [0..<length (int_vars m)]
      \<and> list_all (constraint_holds x) (constraints m))"

definition solver_sound_on :: "solver \<Rightarrow> mip_model \<Rightarrow> bool" where
  "solver_sound_on solve m =
     (case solve m of (status, x) \<Rightarrow>
        if status = OPTIMAL \<or> status = FEASIBLE then satisfies_model m x else True)"

definition weekly_target :: "int option \<Rightarrow> int \<Rightarrow> int" where
  "weekly_target target days =
     (case target of None \<Rightarrow> 0 | Some t \<Rightarrow> if t \<noteq> 0 then t * days else 0)"

definition nutrition_constraints :: "real list \<Rightarrow> int \<Rightarrow> linear_constraint list" where
  "nutrition_constraints cs weekly =
     (if weekly > 0 then
        [Constraint cs GE (real_of_int weekly * 0.8), Constraint cs LE (real_of_int weekly * 1.2)]
      else [])"

definition build_model :: "recipe list \<Rightarrow> user_preferences \<Rightarrow> int \<Rightarrow> mip_model" where
  "build_model recipes prefs days =
     (let num_recipes = length recipes;
          weekly_protein_target = weekly_target (target_protein_g prefs) days;
          weekly_carbs_target = weekly_target (target_carbs_g prefs) days;
          weekly_fat_target = weekly_target (target_fat_g prefs) days;
          weekly_calories_target = weekly_target (target_calories prefs) days;
          min_meals_per_day = 3;
          min_total_meals = min_meals_per_day * days
      in \<lparr>int_vars = replicate num_recipes (0, 10),
          constraints =
            nutrition_constraints (map total_protein_g recipes) weekly_protein_target
            @ nutrition_constraints (map total_carbs_g recipes) weekly_carbs_target
            @ nutrition_constraints (map total_fat_g recipes) weekly_fat_target
            @ nutrition_constraints (map total_calories recipes) weekly_calories_target
            @ [Constraint (map total_cost recipes) LE (weekly_budget prefs)]
            @ map (\<lambda>i. Constraint ((replicate num_recipes 0)[i := 1]) LE
                          (real_of_int (max_repeats_per_week prefs)))
                [0..<num_recipes]
            @ [Constraint (replicate num_recipes 1) GE (real_of_int min_total_meals)]
            @ [Constraint (map (\<lambda>r. real_of_int (cooking_time_min r)) recipes) LE
                 (real_of_int (min_meals_per_day * days * max_cooking_time_min prefs))],
          objective_coefficients = map total_cost recipes\<rparr>)"

text \<open>Python's \<^verbatim>\<open>int()\<close> of a float truncates towards zero.\<close>

definition py_int :: "real \<Rightarrow> int" where
  "py_int v = (if v \<ge> 0 then \<lfloor>v\<rfloor> else \<lceil>v\<rceil>)"

datatype error = SolverUnavailable | TypeError

text \<open>
  \<^verbatim>\<open>_relax_and_solve\<close> reads the number of constraints, prints a message and returns the
  empty list; it adds no constraint and does not call the solver.
\<close>

definition relax_and_solve ::
  "solver \<Rightarrow> mip_model \<Rightarrow> recipe list \<Rightarrow> user_preferences \<Rightarrow> int \<Rightarrow> (recipe \<times> int) list" where
  "relax_and_solve solve m recipes prefs days =
     (let original_constraints = length (constraints m) in [])"

text \<open>
  Lines 100 to 125 of \<^verbatim>\<open>optimize_meal_plan\<close> compute a nutrition penalty that the objective
  never uses. For every positive weekly target they take \<^verbatim>\<open>abs(actual - target)\<close>, where
  \<^verbatim>\<open>actual\<close> is the sum of the solver's variables times the recipes' totals. With a
  non-empty pool that sum is a linear expression of the solver library, which has no
  absolute value: Python raises \<^verbatim>\<open>TypeError\<close> there, after the constraints were added and
  before \<^verbatim>\<open>Solve()\<close>. With an empty pool the sum is the number 0 and nothing is raised.
\<close>

definition nutrition_penalty_raises :: "recipe list \<Rightarrow> user_preferences \<Rightarrow> int \<Rightarrow> bool" where
  "nutrition_penalty_raises recipes prefs days =
     (recipes \<noteq> []
      \<and> (weekly_target (target_protein_g prefs) days > 0
         \<or> weekly_target (target_carbs_g prefs) days > 0
         \<or> weekly_target (target_fat_g prefs) days > 0
         \<or> weekly_target (target_calories prefs) days > 0))"

definition optimize_meal_plan ::
  "solver option \<Rightarrow> recipe list \<Rightarrow> user_preferences \<Rightarrow> int \<Rightarrow> error + (recipe \<times> int) list" where
  "optimize_meal_plan solver_opt recipes prefs days =
     (case solver_opt of
        None \<Rightarrow> Inl SolverUnavailable
      | Some solve \<Rightarrow>
          (let m = build_model recipes prefs days in
           if nutrition_penalty_raises recipes prefs days then Inl TypeError
           else
             case solve m of (status, solution_value) \<Rightarrow>
               if status = OPTIMAL \<or> status = FEASIBLE then
                 Inr (concat (map (\<lambda>i. let servings = solution_value i in
                                        if servings > 0 then [(recipes ! i, py_int servings)] else [])
                                [0..<length recipes]))
               else Inr (relax_and_solve solve m recipes prefs days)))"

text \<open>
  \<^verbatim>\<open>calculate_grocery_list\<close>. The dictionary keeps insertion order, so it is an association
  list with distinct keys: \<open>dict_add\<close> adds to the value of a key already present and
  appends a new key at the end.
\<close>

fun dict_add :: "string \<Rightarrow> real \<Rightarrow> (string \<times> real) list \<Rightarrow> (string \<times> real) list" where
  "dict_add k v [] = [(k, v)]"
| "dict_add k v ((k', v') # d) = (if k' = k then (k', v' + v) # d else (k', v') # dict_add k v d)"

definition ingredient_key :: "ingredient \<Rightarrow> string" where
  "ingredient_key ing = ing_name ing @ '' ('' @ unit ing @ '')''"

definition grocery_list_step ::
  "recipe \<times> int \<Rightarrow> (string \<times> real) list \<Rightarrow> (string \<times> real) list" where
  "grocery_list_step entry grocery_list =
     (case entry of (r, servings) \<Rightarrow>
        fold (\<lambda>ing gl. dict_add (ingredient_key ing) (amount ing * real_of_int servings) gl)
          (ingredients r) grocery_list)"

definition calculate_grocery_list :: "(recipe \<times> int) list \<Rightarrow> (string \<times> real) list" where
  "calculate_grocery_list meal_plan = fold grocery_list_step meal_plan []"

section \<open>Unit standardisation (\<^verbatim>\<open>utils/ingredient_utils.py\<close>)\<close>

definition standardize_units :: "string \<Rightarrow> real \<Rightarrow> string \<Rightarrow> real \<times> string" where
  "standardize_units ingredient_name amt u =
     (if u \<in> set [''kg'', ''mg'', ''lb'', ''oz''] then
        (if u = ''kg'' then (amt * 1000, ''g'')
         else if u = ''mg'' then (amt / 1000, ''g'')
         else if u = ''lb'' then (amt * 453.592, ''g'')
         else if u = ''oz'' then (amt * 28.35, ''g'')
         else (amt, u))
      else if u \<in> set [''l'', ''tbsp'', ''tsp'', ''cup''] then
        (if u = ''l'' then (amt * 1000, ''ml'')
         else if u = ''cup'' then (amt * 240, ''ml'')
         else if u = ''tbsp'' then (amt * 15, ''ml'')
         else if u = ''tsp'' then (amt * 5, ''ml'')
         else (amt, u))
      else (amt, u))"

section \<open>Grocery optimizer (\<^verbatim>\<open>services/grocery_optimizer_service.py\<close>)\<close>

text \<open>
  The price database is the JSON document with the lists \<^verbatim>\<open>stores\<close> and \<^verbatim>\<open>prices\<close>; a
  missing key reads as the empty list (\<^verbatim>\<open>.get(key, [])\<close>), and the empty document has
  both lists empty. Dictionaries that the code iterates over (the grocery list, the items
  by store, the items by section) are association lists in insertion order.
\<close>

record store =
  store_id :: string
  store_name :: string
  location :: string

record price_entry =
  pe_ingredient :: string
  pe_store_id :: string
  pe_unit :: string
  price_per_unit :: real
  pe_section :: string

record price_database =
  stores :: "store list"
  prices :: "price_entry list"

record item =
  item_name :: string
  quantity :: real
  item_unit :: string
  unit_price :: real
  total_price :: real
  item_section :: string

record substitution =
  original_item :: string
  alternative_store :: string
  original_price :: real
  alternative_price :: real
  savings_per_unit :: real
  estimated_savings :: real

text \<open>
  The dictionary that \<^verbatim>\<open>optimize_grocery_list\<close> returns. \<^verbatim>\<open>stores_used\<close> holds the store
  record in single-store mode and the store ids (the keys of \<^verbatim>\<open>items_by_store\<close>) in
  multi-store mode.
\<close>

record grocery_plan =
  single_store_mode :: bool
  selected_store :: "store option"
  stores_used :: "(store + string) list"
  plan_total_cost :: real
  items_by_store :: "(string \<times> item list) list"
  items_by_section :: "(string \<times> item list) list"
  substitutions :: "substitution list"
  cost_savings :: real

text \<open>\<^verbatim>\<open>str.lower()\<close>, on the ASCII letters.\<close>

definition lower_char :: "char \<Rightarrow> char" where
  "lower_char c =
     (case map_of (zip ''ABCDEFGHIJKLMNOPQRSTUVWXYZ'' ''abcdefghijklmnopqrstuvwxyz'') c of
        Some l \<Rightarrow> l
      | None \<Rightarrow> c)"

definition lower :: "string \<Rightarrow> string" where
  "lower s = map lower_char s"

text \<open>\<^verbatim>\<open>item_name.split(' (')[0]\<close>: the text before the first occurrence of \<^verbatim>\<open> (\<close>.\<close>

fun split_name :: "string \<Rightarrow> string" where
  "split_name [] = []"
| "split_name (c # cs) = (if take 2 (c # cs) = '' ('' then [] else c # split_name cs)"

fun find_lowest_price_for_ingredient_in_store ::
  "price_entry list \<Rightarrow> string \<Rightarrow> string \<Rightarrow> price_entry option" where
  "find_lowest_price_for_ingredient_in_store [] ingredient sid = None"
| "find_lowest_price_for_ingredient_in_store (price_entry # ps) ingredient sid =
     (if lower (pe_ingredient price_entry) = lower ingredient \<and> pe_store_id price_entry = sid
      then Some price_entry
      else find_lowest_price_for_ingredient_in_store ps ingredient sid)"

definition default_store :: store where
  "default_store = \<lparr>store_id = ''default'', store_name = ''Default Store'', location = ''N/A''\<rparr>"

text \<open>
  The inner loop of \<^verbatim>\<open>_find_best_single_store\<close> for one store: the sum, or \<open>None\<close> when
  the loop breaks at an item the store does not price.
\<close>

fun store_total_cost ::
  "price_database \<Rightarrow> string \<Rightarrow> (string \<times> real) list \<Rightarrow> real \<Rightarrow> real option" where
  "store_total_cost db sid [] total_cost' = Some total_cost'"
| "store_total_cost db sid ((item_nm, qty) # rest) total_cost' =
     (case find_lowest_price_for_ingredient_in_store (prices db) (split_name item_nm) sid of
        Some price_info \<Rightarrow> store_total_cost db sid rest (total_cost' + price_per_unit price_info * qty)
      | None \<Rightarrow> None)"

text \<open>
  The outer loop keeps the best store and the lowest sum, which starts at
  \<^verbatim>\<open>float('inf')\<close>: \<open>None\<close> stands for infinity.
\<close>

definition best_store_step ::
  "price_database \<Rightarrow> (string \<times> real) list \<Rightarrow> store \<Rightarrow> store option \<times> real option \<Rightarrow>
   store option \<times> real option" where
  "best_store_step db grocery_list st acc =
     (case acc of (best_store, lowest_total_cost) \<Rightarrow>
        (case store_total_cost db (store_id st) grocery_list 0 of
           Some total_cost' \<Rightarrow>
             if (case lowest_total_cost of None \<Rightarrow> True | Some l \<Rightarrow> total_cost' < l)
             then (Some st, Some total_cost') else acc
         | None \<Rightarrow> acc))"

definition find_best_single_store :: "price_database \<Rightarrow> (string \<times> real) list \<Rightarrow> store" where
  "find_best_single_store db grocery_list =
     (case stores db of
        [] \<Rightarrow> default_store
      | first_store # _ \<Rightarrow>
          (case fst (fold (best_store_step db grocery_list) (stores db) (None, None)) of
             None \<Rightarrow> first_store
           | Some best_store \<Rightarrow> best_store))"

text \<open>The body of the loop of \<^verbatim>\<open>_calculate_store_items\<close>, and the loop.\<close>

definition store_items_step ::
  "price_database \<Rightarrow> string \<Rightarrow> string \<times> real \<Rightarrow> item list \<times> real \<Rightarrow> item list \<times> real" where
  "store_items_step db sid entry acc =
     (case (entry, acc) of ((item_nm, qty), (items, total_cost')) \<Rightarrow>
             let ingredient_name = split_name item_nm in
             case find_lowest_price_for_ingredient_in_store (prices db) ingredient_name sid of
               Some price_info \<Rightarrow>
                 (let item_cost = price_per_unit price_info * qty in
                  (items @ [\<lparr>item_name = ingredient_name, quantity = qty,
                              item_unit = pe_unit price_info,
                              unit_price = price_per_unit price_info,
                              total_price = item_cost,
                              item_section = pe_section price_info\<rparr>],
                   total_cost' + item_cost))
             | None \<Rightarrow>
                 (items @ [\<lparr>item_name = ingredient_name, quantity = qty,
                             item_unit = ''g'', unit_price = 0.10,
                             total_price = 0.10 * qty, item_section = ''unknown''\<rparr>],
                  total_cost' + 0.10 * qty))"

definition calculate_store_items ::
  "price_database \<Rightarrow> (string \<times> real) list \<Rightarrow> string \<Rightarrow> item list \<times> real" where
  "calculate_store_items db grocery_list sid =
     fold (store_items_step db sid) grocery_list ([], 0)"

text \<open>Appending to the list under a key of a dictionary of lists, the key created if absent.\<close>

fun dict_append :: "string \<Rightarrow> item \<Rightarrow> (string \<times> item list) list \<Rightarrow> (string \<times> item list) list" where
  "dict_append k v [] = [(k, [v])]"
| "dict_append k v ((k', vs) # d) =
     (if k' = k then (k', vs @ [v]) # d else (k', vs) # dict_append k v d)"

definition group_by_section :: "item list \<Rightarrow> (string \<times> item list) list" where
  "group_by_section items = fold (\<lambda>it grouped. dict_append (item_section it) it grouped) items []"

definition lowest_price_step ::
  "string \<Rightarrow> price_entry \<Rightarrow> real option \<times> price_entry option \<Rightarrow> real option \<times> price_entry option" where
  "lowest_price_step ingredient price_entry acc =
     (case acc of (lowest_price, lowest_price_info) \<Rightarrow>
                  if lower (pe_ingredient price_entry) = lower ingredient then
                    (if (case lowest_price of None \<Rightarrow> True
                         | Some l \<Rightarrow> price_per_unit price_entry < l)
                     then (Some (price_per_unit price_entry), Some price_entry)
                     else (lowest_price, lowest_price_info))
                  else (lowest_price, lowest_price_info))"

definition find_lowest_price_for_ingredient :: "price_database \<Rightarrow> string \<Rightarrow> price_entry option" where
  "find_lowest_price_for_ingredient db ingredient =
     snd (fold (lowest_price_step ingredient) (prices db) (None, None))"

text \<open>The body of the loop of \<^verbatim>\<open>_optimize_multi_store\<close>, and the loop.\<close>

definition multi_store_step ::
  "price_database \<Rightarrow> string \<times> real \<Rightarrow> (string \<times> item list) list \<times> real \<Rightarrow>
   (string \<times> item list) list \<times> real" where
  "multi_store_step db entry acc =
     (case (entry, acc) of ((item_nm, qty), (by_store, total_cost')) \<Rightarrow>
             let ingredient_name = split_name item_nm in
             case find_lowest_price_for_ingredient db ingredient_name of
               Some best_price_info \<Rightarrow>
                 (let item_cost = price_per_unit best_price_info * qty in
                  (dict_append (pe_store_id best_price_info)
                     \<lparr>item_name = ingredient_name, quantity = qty,
                      item_unit = pe_unit best_price_info,
                      unit_price = price_per_unit best_price_info,
                      total_price = item_cost,
                      item_section = pe_section best_price_info\<rparr> by_store,
                   total_cost' + item_cost))
             | None \<Rightarrow>
                 (let by_store' = (if by_store = [] then [(''default'', [])] else by_store);
                      sid = fst (hd by_store');
                      item_cost = 0.10 * qty
                  in (dict_append sid
                        \<lparr>item_name = ingredient_name, quantity = qty,
                         item_unit = ''g'', unit_price = 0.10,
                         total_price = item_cost, item_section = ''unknown''\<rparr> by_store',
                      total_cost' + item_cost)))"

definition optimize_multi_store ::
  "price_database \<Rightarrow> (string \<times> real) list \<Rightarrow> (string \<times> item list) list \<times> real" where
  "optimize_multi_store db grocery_list = fold (multi_store_step db) grocery_list ([], 0)"

definition find_all_prices_for_ingredient :: "price_database \<Rightarrow> string \<Rightarrow> price_entry list" where
  "find_all_prices_for_ingredient db ingredient =
     filter (\<lambda>price_entry. lower (pe_ingredient price_entry) = lower ingredient) (prices db)"

fun get_store_name :: "store list \<Rightarrow> string \<Rightarrow> string" where
  "get_store_name [] sid = ''Unknown Store''"
| "get_store_name (st # sts) sid = (if store_id st = sid then store_name st else get_store_name sts sid)"

text \<open>
  \<^verbatim>\<open>_find_substitutions\<close>. \<^verbatim>\<open>all_prices.sort(key=...)\<close> is a stable ascending sort, as
  \<open>sort_key\<close> is.
\<close>

definition substitutions_step ::
  "price_database \<Rightarrow> string \<times> real \<Rightarrow> substitution list \<Rightarrow> substitution list" where
  "substitutions_step db entry subs =
     (case entry of (item_nm, qty) \<Rightarrow>
             let ingredient_name = split_name item_nm;
                 all_prices = find_all_prices_for_ingredient db ingredient_name
             in if length all_prices > 1 then
                  (let all_prices = sort_key price_per_unit all_prices;
                       current_price = price_per_unit (all_prices ! 0)
                   in if length all_prices > 1 then
                        (let next_cheapest = price_per_unit (all_prices ! 1)
                         in if next_cheapest < current_price * 0.9 then
                              subs @ [\<lparr>original_item = ingredient_name,
                                       alternative_store =
                                         get_store_name (stores db) (pe_store_id (all_prices ! 1)),
                                       original_price = current_price,
                                       alternative_price = next_cheapest,
                                       savings_per_unit = current_price - next_cheapest,
                                       estimated_savings = (current_price - next_cheapest) * qty\<rparr>]
                            else subs)
                      else subs)
                else subs)"

definition find_substitutions :: "price_database \<Rightarrow> (string \<times> real) list \<Rightarrow> substitution list" where
  "find_substitutions db grocery_list = fold (substitutions_step db) grocery_list []"

definition optimize_grocery_list ::
  "price_database \<Rightarrow> (string \<times> real) list \<Rightarrow> user_preferences \<Rightarrow> bool \<Rightarrow> grocery_plan" where
  "optimize_grocery_list db grocery_list prefs single =
     (let optimized_list =
            \<lparr>single_store_mode = single, selected_store = None, stores_used = [],
             plan_total_cost = 0, items_by_store = [], items_by_section = [],
             substitutions = [], cost_savings = 0\<rparr>;
          optimized_list =
            (if single then
               (let best_store = find_best_single_store db grocery_list;
                    (store_items, total_cost') = calculate_store_items db grocery_list (store_id best_store)
                in optimized_list
                     \<lparr>selected_store := Some best_store,
                      stores_used := [Inl best_store],
                      items_by_store := [(store_id best_store, store_items)],
                      plan_total_cost := total_cost',
                      items_by_section := group_by_section store_items\<rparr>)
             else
               (let (by_store, total_cost') = optimize_multi_store db grocery_list
                in optimized_list
                     \<lparr>items_by_store := by_store,
                      plan_total_cost := total_cost',
                      stores_used := map (\<lambda>(k, _). Inr k) by_store\<rparr>))
      in optimized_list\<lparr>substitutions := find_substitutions db grocery_list\<rparr>)"

text \<open>The price database that \<^verbatim>\<open>_create_default_prices\<close> writes.\<close>

definition default_prices :: price_database where
  "default_prices =
     \<lparr>stores =
        [\<lparr>store_id = ''store_1'', store_name = ''FreshMart'', location = ''Downtown''\<rparr>,
         \<lparr>store_id = ''store_2'', store_name = ''ValueGrocer'', location = ''Uptown''\<rparr>,
         \<lparr>store_id = ''store_3'', store_name = ''Organic Plus'', location = ''Midtown''\<rparr>],
      prices =
        [\<lparr>pe_ingredient = ''Chicken Breast'', pe_store_id = ''store_1'', pe_unit = ''g'',
          price_per_unit = 0.11, pe_section = ''meat''\<rparr>,
         \<lparr>pe_ingredient = ''Chicken Breast'', pe_store_id = ''store_2'', pe_unit = ''g'',
          price_per_unit = 0.13, pe_section = ''meat''\<rparr>,
         \<lparr>pe_ingredient = ''Chicken Breast'', pe_store_id = ''store_3'', pe_unit = ''g'',
          price_per_unit = 0.15, pe_section = ''meat''\<rparr>,
         \<lparr>pe_ingredient = ''Broccoli'', pe_store_id = ''store_1'', pe_unit = ''g'',
          price_per_unit = 0.012, pe_section = ''produce''\<rparr>,
         \<lparr>pe_ingredient = ''Broccoli'', pe_store_id = ''store_2'', pe_unit = ''g'',
          price_per_unit = 0.009, pe_section = ''produce''\<rparr>,
         \<lparr>pe_ingredient = ''Broccoli'', pe_store_id = ''store_3'', pe_unit = ''g'',
          price_per_unit = 0.015, pe_section = ''produce''\<rparr>,
         \<lparr>pe_ingredient = ''Rice'', pe_store_id = ''store_1'', pe_unit = ''g'',
          price_per_unit = 0.018, pe_section = ''pantry''\<rparr>,
         \<lparr>pe_ingredient = ''Rice'', pe_store_id = ''store_2'', pe_unit = ''g'',
          price_per_unit = 0.022, pe_section = ''pantry''\<rparr>,
         \<lparr>pe_ingredient = ''Rice'', pe_store_id = ''store_3'', pe_unit = ''g'',
          price_per_unit = 0.020, pe_section = ''pantry''\<rparr>]\<rparr>"

section \<open>Notions used to state the properties\<close>

text \<open>The sum of the \<^verbatim>\<open>total_price\<close> fields of all line items of a plan, store by store.\<close>

definition line_items_total :: "grocery_plan \<Rightarrow> real" where
  "line_items_total plan =
     (\<Sum>(sid, items)\<leftarrow>items_by_store plan. \<Sum>it\<leftarrow>items. total_price it)"

definition dict_items_total :: "(string \<times> item list) list \<Rightarrow> real" where
  "dict_items_total d = (\<Sum>(sid, items)\<leftarrow>d. \<Sum>it\<leftarrow>items. total_price it)"

text \<open>The line item of an ingredient that the store does not price.\<close>

definition fallback_item :: "string \<Rightarrow> real \<Rightarrow> item" where
  "fallback_item ingredient_name qty =
     \<lparr>item_name = ingredient_name, quantity = qty, item_unit = ''g'', unit_price = 0.10,
      total_price = 0.10 * qty, item_section = ''unknown''\<rparr>"

text \<open>The recipe held by slot \<open>s\<close> of the slot table, as a list of at most one element.\<close>

definition slot_recipes :: "recipe option list \<Rightarrow> nat \<Rightarrow> recipe list" where
  "slot_recipes assigned s =
     (if s < length assigned then (case assigned ! s of Some r \<Rightarrow> [r] | None \<Rightarrow> []) else [])"

text \<open>
  The grocery basket in the words of the specification: every ingredient amount is
  normalized with \<open>standardize_units\<close> before it is added under the key of the ingredient
  name and the canonical unit.
\<close>

definition spec_grocery_list :: "(recipe \<times> int) list \<Rightarrow> (string \<times> real) list" where
  "spec_grocery_list meal_plan =
     fold (\<lambda>(r, servings) grocery_list.
             fold (\<lambda>ing gl.
                     case standardize_units (ing_name ing) (amount ing) (unit ing) of
                       (standard_amount, standard_unit) \<Rightarrow>
                         dict_add (ing_name ing @ '' ('' @ standard_unit @ '')'')
                           (standard_amount * real_of_int servings) gl)
               (ingredients r) grocery_list)
       meal_plan []"

text \<open>The units that \<open>standardize_units\<close> converts.\<close>

definition convertible_units :: "string set" where
  "convertible_units = {''kg'', ''mg'', ''lb'', ''oz'', ''l'', ''tbsp'', ''tsp'', ''cup''}"

text \<open>
  The sum of amount times servings over the ingredients of all entries of the selection
  whose key (name and unit as the recipe states them) is \<open>k\<close>.
\<close>

definition key_total :: "(recipe \<times> int) list \<Rightarrow> string \<Rightarrow> real" where
  "key_total meal_plan k =
     (\<Sum>(r, servings)\<leftarrow>meal_plan.
        \<Sum>ing\<leftarrow>filter (\<lambda>ing. ingredient_key ing = k) (ingredients r).
          amount ing * real_of_int servings)"

text \<open>The value of a key of a dictionary, zero for an absent key.\<close>

definition entry_value :: "(string \<times> real) list \<Rightarrow> string \<Rightarrow> real" where
  "entry_value d k = (case map_of d k of Some v \<Rightarrow> v | None \<Rightarrow> 0)"






text \<open>
  The reuse count in the words of the specification: the number of distinct ingredient names
  of the recipe that are keys of the usage counter.
\<close>

definition distinct_reuse_count :: "recipe \<Rightarrow> usage_tracker \<Rightarrow> nat" where
  "distinct_reuse_count r tracker =
     length (remdups (filter (\<lambda>n. tracker n \<noteq> None) (map ing_name (ingredients r))))"

text \<open>
  The substitution rule in the words of the specification. The price entries of an
  ingredient are the entries of the catalog with its name, letter case ignored, in catalog
  order; the store of an entry is named by the first store of the catalog with the entry's
  identifier. A record is emitted when there are at least two entries and, after the
  ascending sort by price, the second price is below nine tenths of the first.
\<close>

definition matching_entries :: "price_database \<Rightarrow> string \<Rightarrow> price_entry list" where
  "matching_entries db name = [pe \<leftarrow> prices db. lower (pe_ingredient pe) = lower name]"

definition store_name_of :: "price_database \<Rightarrow> string \<Rightarrow> string" where
  "store_name_of db sid =
     (case find (\<lambda>st. store_id st = sid) (stores db) of
        Some st \<Rightarrow> store_name st
      | None \<Rightarrow> ''Unknown Store'')"

definition spec_substitution :: "price_database \<Rightarrow> string \<Rightarrow> real \<Rightarrow> substitution option" where
  "spec_substitution db name qty =
     (let ascending = sort_key price_per_unit (matching_entries db name);
          cheapest = ascending ! 0;
          second = ascending ! 1
      in if 2 \<le> length (matching_entries db name)
            \<and> price_per_unit second < price_per_unit cheapest * 0.9
         then Some \<lparr>original_item = name,
                    alternative_store = store_name_of db (pe_store_id second),
                    original_price = price_per_unit cheapest,
                    alternative_price = price_per_unit second,
                    savings_per_unit = price_per_unit cheapest - price_per_unit second,
                    estimated_savings = (price_per_unit cheapest - price_per_unit second) * qty\<rparr>
         else None)"


text \<open>
  The scheduling rule in the words of the specification. The position of the first maximal
  element of a list of scores, and the slot table of \<open>k\<close> slots: each slot takes the
  occurrence at the first maximal score of the remaining occurrences, which leaves the
  pool and is counted in the usage counter; a slot with no occurrence left stays empty.
\<close>

fun first_max_index :: "int list \<Rightarrow> nat" where
  "first_max_index [] = 0"
| "first_max_index (s # ss) = (if \<forall>t \<in> set ss. t \<le> s then 0 else Suc (first_max_index ss))"

fun spec_schedule ::
  "nat \<Rightarrow> recipe list \<Rightarrow> usage_tracker \<Rightarrow> user_preferences \<Rightarrow> recipe option list" where
  "spec_schedule 0 pool tracker prefs = []"
| "spec_schedule (Suc k) pool tracker prefs =
     (if pool = [] then None # spec_schedule k pool tracker prefs
      else
        (let i = first_max_index (map (\<lambda>r. score_recipe_for_assignment r tracker prefs) pool)
         in Some (pool ! i)
            # spec_schedule k (take i pool @ drop (Suc i) pool)
                (update_tracker (pool ! i) tracker) prefs))"

section \<open>Example inputs\<close>

definition example_prefs :: user_preferences where
  "example_prefs =
     \<lparr>dietary_restrictions = [], allergies = [], dislikes = [],
      target_protein_g = None, target_carbs_g = None, target_fat_g = None,
      target_calories = None, preferred_cuisines = [],
      cooking_skill_level = INTERMEDIATE, max_cooking_time_min = 60,
      weekly_budget = 100, max_repeats_per_week = 2\<rparr>"

text \<open>Scenario A of the specification, on the default price database.\<close>

definition chicken_basket :: "(string \<times> real) list" where
  "chicken_basket = [(''chicken breast (g)'', 300)]"

text \<open>
  An ingredient that the catalog does not price, and a second catalog that prices it at
  the store with the values of the fallback.
\<close>

definition saffron_basket :: "(string \<times> real) list" where
  "saffron_basket = [(''saffron (g)'', 2)]"

definition fresh_mart :: store where
  "fresh_mart = \<lparr>store_id = ''store_1'', store_name = ''FreshMart'', location = ''Downtown''\<rparr>"

definition catalog_without_saffron :: price_database where
  "catalog_without_saffron = \<lparr>stores = [fresh_mart], prices = []\<rparr>"

definition catalog_with_saffron :: price_database where
  "catalog_with_saffron =
     \<lparr>stores = [fresh_mart],
      prices = [\<lparr>pe_ingredient = ''Saffron'', pe_store_id = ''store_1'', pe_unit = ''g'',
                 price_per_unit = 0.10, pe_section = ''unknown''\<rparr>]\<rparr>"

text \<open>Two recipes that share an ingredient, and a usage tracker.\<close>

definition rice :: ingredient where
  "rice = \<lparr>ing_name = ''rice'', amount = 100, unit = ''g'', cost_per_unit = 0.018,
           calories_per_unit = 1.3, protein_per_unit = 0.027, carbs_per_unit = 0.28,
           fat_per_unit = 0.003\<rparr>"

definition broccoli :: ingredient where
  "broccoli = \<lparr>ing_name = ''broccoli'', amount = 150, unit = ''g'', cost_per_unit = 0.012,
               calories_per_unit = 0.34, protein_per_unit = 0.028, carbs_per_unit = 0.066,
               fat_per_unit = 0.004\<rparr>"

definition rice_bowl :: recipe where
  "rice_bowl =
     \<lparr>recipe_id = ''r1'', recipe_name = ''Rice Bowl'', description = ''Plain rice'',
      ingredients = [rice], steps = [''Cook the rice''], cooking_time_min = 20,
      difficulty_level = ''beginner'', cuisine_type = ''asian'',
      recipe_dietary_restrictions = [''vegan''], allergens = [],
      total_calories = 130, total_protein_g = 2.7, total_carbs_g = 28, total_fat_g = 0.3,
      total_cost = 1.8\<rparr>"

definition broccoli_rice :: recipe where
  "broccoli_rice =
     \<lparr>recipe_id = ''r2'', recipe_name = ''Broccoli Rice'', description = ''Rice with broccoli'',
      ingredients = [rice, broccoli], steps = [''Cook the rice'', ''Steam the broccoli''],
      cooking_time_min = 25, difficulty_level = ''beginner'', cuisine_type = ''asian'',
      recipe_dietary_restrictions = [''vegan''], allergens = [],
      total_calories = 181, total_protein_g = 6.9, total_carbs_g = 37.9, total_fat_g = 0.9,
      total_cost = 3.6\<rparr>"

definition broccoli_used :: usage_tracker where
  "broccoli_used = [''broccoli'' \<mapsto> 1]"

text \<open>Selections with rice in kilograms and in grams, and a selection in grams only.\<close>

definition rice_kg :: ingredient where
  "rice_kg = \<lparr>ing_name = ''rice'', amount = 1, unit = ''kg'', cost_per_unit = 18,
              calories_per_unit = 1300, protein_per_unit = 27, carbs_per_unit = 280,
              fat_per_unit = 3\<rparr>"

definition rice_g :: ingredient where
  "rice_g = \<lparr>ing_name = ''rice'', amount = 500, unit = ''g'', cost_per_unit = 0.018,
             calories_per_unit = 1.3, protein_per_unit = 0.027, carbs_per_unit = 0.28,
             fat_per_unit = 0.003\<rparr>"

definition mixed_units_plan :: "(recipe \<times> int) list" where
  "mixed_units_plan =
     [(rice_bowl\<lparr>ingredients := [rice_kg]\<rparr>, 1), (rice_bowl\<lparr>ingredients := [rice_g]\<rparr>, 1)]"

definition grams_plan :: "(recipe \<times> int) list" where
  "grams_plan = [(broccoli_rice, 2), (rice_bowl, 1)]"

text \<open>
  A pool of three recipes; preferences without nutrition targets that allow ten repeats;
  the same with a daily calorie target; preferences with a weekly budget below the cost of
  any 21 servings of the pool; a solver that reports a feasible solution of the first
  problem, and a solver that reports infeasibility.
\<close>

definition steamed_broccoli :: recipe where
  "steamed_broccoli =
     \<lparr>recipe_id = ''r3'', recipe_name = ''Steamed Broccoli'', description = ''Broccoli'',
      ingredients = [broccoli], steps = [''Steam the broccoli''], cooking_time_min = 10,
      difficulty_level = ''beginner'', cuisine_type = ''asian'',
      recipe_dietary_restrictions = [''vegan''], allergens = [],
      total_calories = 51, total_protein_g = 4.2, total_carbs_g = 9.9, total_fat_g = 0.6,
      total_cost = 1.8\<rparr>"

definition recipe_pool :: "recipe list" where
  "recipe_pool = [rice_bowl, broccoli_rice, steamed_broccoli]"

definition week_prefs :: user_preferences where
  "week_prefs = example_prefs\<lparr>max_repeats_per_week := 10\<rparr>"

definition calorie_prefs :: user_preferences where
  "calorie_prefs = example_prefs\<lparr>target_calories := Some 400, max_repeats_per_week := 10\<rparr>"

definition low_budget_prefs :: user_preferences where
  "low_budget_prefs = example_prefs\<lparr>weekly_budget := 10, max_repeats_per_week := 10\<rparr>"


definition failing_solver :: solver where
  "failing_solver m = (INFEASIBLE, \<lambda>i. 0)"

text \<open>
  A recipe that lists rice three times, and a usage counter holding rice and broccoli.
\<close>

definition triple_rice :: recipe where
  "triple_rice = rice_bowl\<lparr>ingredients := [rice, rice, rice]\<rparr>"

definition both_used :: usage_tracker where
  "both_used = [''rice'' \<mapsto> 1, ''broccoli'' \<mapsto> 1]"



text \<open>A selection of three recipes with one serving each.\<close>

definition three_dishes :: "(recipe \<times> int) list" where
  "three_dishes = [(steamed_broccoli, 1), (rice_bowl, 1), (broccoli_rice, 1)]"

section \<open>Properties of the scheduler's score\<close>

lemma fold_reuse_count:
  "fold (\<lambda>ing b. if tracker (ing_name ing) \<noteq> None then b + 1 else b) xs (b0::int) =
   b0 + int (length (filter (\<lambda>ing. ing_name ing \<in> dom tracker) xs))"
  by (induction xs arbitrary: b0) (auto simp: domIff)

lemma reuse_bonus_count:
  "reuse_bonus r tracker = int (length (filter (\<lambda>ing. ing_name ing \<in> dom tracker) (ingredients r)))"
  unfolding reuse_bonus_def by (simp only: fold_reuse_count)

lemma reuse_bonus_distinct:
  assumes "distinct (map ing_name (ingredients r))"
  shows "reuse_bonus r tracker = int (card (set (map ing_name (ingredients r)) \<inter> dom tracker))"
proof -
  let ?ns = "map ing_name (ingredients r)"
  have "length (filter (\<lambda>ing. ing_name ing \<in> dom tracker) (ingredients r)) =
        length (filter (\<lambda>n. n \<in> dom tracker) ?ns)"
    by (simp add: filter_map comp_def)
  also have "\<dots> = card (set (filter (\<lambda>n. n \<in> dom tracker) ?ns))"
    using assms by (metis distinct_card distinct_filter)
  also have "set (filter (\<lambda>n. n \<in> dom tracker) ?ns) = set ?ns \<inter> dom tracker"
    by auto
  finally show ?thesis by (simp add: reuse_bonus_count)
qed

section \<open>Properties of the grocery optimizer\<close>

lemma store_items_fold:
  "fold (store_items_step db sid) gl (items0, t0) =
   (items0 @ map (\<lambda>e. hd (fst (store_items_step db sid e ([], 0)))) gl,
    t0 + (\<Sum>e\<leftarrow>gl. total_price (hd (fst (store_items_step db sid e ([], 0))))))"
proof (induction gl arbitrary: items0 t0)
  case Nil
  show ?case by simp
next
  case (Cons e gl)
  obtain k q where e: "e = (k, q)" by (cases e)
  have step: "store_items_step db sid e (items0, t0) =
      (items0 @ [hd (fst (store_items_step db sid e ([], 0)))],
       t0 + total_price (hd (fst (store_items_step db sid e ([], 0)))))"
    by (cases "find_lowest_price_for_ingredient_in_store (prices db) (split_name k) sid")
       (simp_all add: e store_items_step_def Let_def)
  show ?case by (simp add: step Cons.IH add.assoc)
qed

lemma store_items_total:
  "(\<Sum>it\<leftarrow>fst (calculate_store_items db gl sid). total_price it) = snd (calculate_store_items db gl sid)"
  by (simp add: calculate_store_items_def store_items_fold comp_def)

lemma dict_items_total_append:
  "dict_items_total (dict_append k v d) = dict_items_total d + total_price v"
  by (induction d) (auto simp: dict_items_total_def)

lemma multi_store_step_total:
  "dict_items_total (fst (multi_store_step db e (d0, t0))) - snd (multi_store_step db e (d0, t0))
   = dict_items_total d0 - t0"
proof -
  obtain k q where e: "e = (k, q)" by (cases e)
  show ?thesis
  proof (cases "find_lowest_price_for_ingredient db (split_name k)")
    case None
    then show ?thesis
      by (simp add: e multi_store_step_def Let_def dict_items_total_append)
         (simp add: dict_items_total_def)
  next
    case (Some a)
    then show ?thesis
      by (simp add: e multi_store_step_def Let_def dict_items_total_append)
  qed
qed

lemma multi_store_fold_total:
  "dict_items_total (fst (fold (multi_store_step db) gl (d0, t0)))
     - snd (fold (multi_store_step db) gl (d0, t0)) = dict_items_total d0 - t0"
proof (induction gl arbitrary: d0 t0)
  case Nil
  show ?case by simp
next
  case (Cons e gl)
  obtain d1 t1 where step: "multi_store_step db e (d0, t0) = (d1, t1)"
    by (cases "multi_store_step db e (d0, t0)")
  have "dict_items_total d1 - t1 = dict_items_total d0 - t0"
    using multi_store_step_total [of db e d0 t0] by (simp add: step)
  then show ?case using Cons.IH [of d1 t1] by (simp add: step)
qed

lemma multi_store_total:
  "dict_items_total (fst (optimize_multi_store db gl)) = snd (optimize_multi_store db gl)"
  unfolding optimize_multi_store_def
  using multi_store_fold_total [of db gl "[]" 0]
  by (simp add: dict_items_total_def)

text \<open>
  Claim C9. In single-store and in multi-store mode, the \<^verbatim>\<open>total_price\<close> fields of all
  line items of the returned plan, summed store by store, give the plan's \<^verbatim>\<open>total_cost\<close>
  (floats read as exact reals).
\<close>

theorem grocery_plan_round_trip:
  "line_items_total (optimize_grocery_list db grocery_list prefs single) =
   plan_total_cost (optimize_grocery_list db grocery_list prefs single)"
proof (cases single)
  case True
  obtain store_items t where
    items: "calculate_store_items db grocery_list (store_id (find_best_single_store db grocery_list))
            = (store_items, t)"
    by (cases "calculate_store_items db grocery_list (store_id (find_best_single_store db grocery_list))")
  have "(\<Sum>it\<leftarrow>store_items. total_price it) = t"
    using store_items_total [of db grocery_list "store_id (find_best_single_store db grocery_list)"]
    by (simp add: items)
  with True show ?thesis
    by (simp add: optimize_grocery_list_def line_items_total_def Let_def items)
next
  case False
  obtain by_store t where multi: "optimize_multi_store db grocery_list = (by_store, t)"
    by (cases "optimize_multi_store db grocery_list")
  have "dict_items_total by_store = t"
    using multi_store_total [of db grocery_list] by (simp add: multi)
  with False show ?thesis
    by (simp add: optimize_grocery_list_def line_items_total_def dict_items_total_def Let_def multi)
qed

lemma lower_examples:
  "lower ''Chicken Breast'' = ''chicken breast''"
  "lower ''chicken breast'' = ''chicken breast''"
  "lower ''Broccoli'' = ''broccoli''"
  "lower ''Rice'' = ''rice''"
  "lower ''Saffron'' = ''saffron''"
  "lower ''saffron'' = ''saffron''"
  by (simp_all add: lower_def lower_char_def)

lemma scenario_a_plan:
  "optimize_grocery_list default_prices chicken_basket example_prefs True =
     \<lparr>single_store_mode = True,
      selected_store = Some fresh_mart,
      stores_used = [Inl fresh_mart],
      plan_total_cost = 33,
      items_by_store =
        [(''store_1'', [\<lparr>item_name = ''chicken breast'', quantity = 300, item_unit = ''g'',
                          unit_price = 0.11, total_price = 33, item_section = ''meat''\<rparr>])],
      items_by_section =
        [(''meat'', [\<lparr>item_name = ''chicken breast'', quantity = 300, item_unit = ''g'',
                       unit_price = 0.11, total_price = 33, item_section = ''meat''\<rparr>])],
      substitutions = [],
      cost_savings = 0\<rparr>"
  by (simp add: optimize_grocery_list_def default_prices_def chicken_basket_def fresh_mart_def
      find_best_single_store_def best_store_step_def calculate_store_items_def
      store_items_step_def group_by_section_def find_substitutions_def substitutions_step_def
      find_all_prices_for_ingredient_def lower_examples Let_def)

text \<open>
  Claim C3, as stated, fails: in Scenario A the returned plan contains no substitution
  record at all.
\<close>

theorem scenario_a_no_substitution:
  "\<not> (\<exists>s. s \<in> set (substitutions
           (optimize_grocery_list default_prices chicken_basket example_prefs True)))"
  by (simp add: scenario_a_plan)

text \<open>
  Claim C3, amended. For the basket of 300 g of chicken breast and the catalog pricing it
  at 0.11, 0.13 and 0.15 per gram in stores 1, 2 and 3, single-store optimization selects
  store 1 with total cost 33.0, and the plan has no substitution record: the
  second-cheapest price 0.13 is not below 0.9 times the cheapest price 0.11.
\<close>

theorem scenario_a_single_store:
  "selected_store (optimize_grocery_list default_prices chicken_basket example_prefs True)
     = Some \<lparr>store_id = ''store_1'', store_name = ''FreshMart'', location = ''Downtown''\<rparr>
   \<and> plan_total_cost (optimize_grocery_list default_prices chicken_basket example_prefs True) = 33
   \<and> substitutions (optimize_grocery_list default_prices chicken_basket example_prefs True) = []"
  by (simp add: scenario_a_plan fresh_mart_def)

lemma store_items_step_item:
  "fst (store_items_step db sid (k, q) (items0, t0)) = items0 @
     [case find_lowest_price_for_ingredient_in_store (prices db) (split_name k) sid of
        Some price_info \<Rightarrow>
          \<lparr>item_name = split_name k, quantity = q, item_unit = pe_unit price_info,
           unit_price = price_per_unit price_info, total_price = price_per_unit price_info * q,
           item_section = pe_section price_info\<rparr>
      | None \<Rightarrow> fallback_item (split_name k) q]"
  by (cases "find_lowest_price_for_ingredient_in_store (prices db) (split_name k) sid")
     (simp_all add: store_items_step_def fallback_item_def Let_def)

lemma store_items_length:
  "length (fst (calculate_store_items db gl sid)) = length gl"
  by (simp add: calculate_store_items_def store_items_fold)

lemma store_items_nth_unpriced:
  assumes "i < length gl"
    and "find_lowest_price_for_ingredient_in_store (prices db) (split_name (fst (gl ! i))) sid = None"
  shows "fst (calculate_store_items db gl sid) ! i = fallback_item (split_name (fst (gl ! i))) (snd (gl ! i))"
proof -
  have "fst (calculate_store_items db gl sid) ! i = hd (fst (store_items_step db sid (gl ! i) ([], 0)))"
    using assms(1) by (simp add: calculate_store_items_def store_items_fold)
  also have "\<dots> = fallback_item (split_name (fst (gl ! i))) (snd (gl ! i))"
    using assms(2) store_items_step_item [of db sid "fst (gl ! i)" "snd (gl ! i)" "[]" 0]
    by simp
  finally show ?thesis .
qed

text \<open>
  Claim C5, amended. In single-store mode the selected store's item list has one line
  item per basket entry, in basket order, and the line item of every entry without a
  price entry at the selected store has unit price 0.10, section \<^verbatim>\<open>unknown\<close>, unit
  \<^verbatim>\<open>g\<close> and line total 0.10 times the quantity.
\<close>

theorem unpriced_item_default_price:
  "\<exists>items. items_by_store (optimize_grocery_list db grocery_list prefs True) =
              [(store_id (find_best_single_store db grocery_list), items)]
     \<and> length items = length grocery_list
     \<and> (\<forall>i < length grocery_list.
          find_lowest_price_for_ingredient_in_store (prices db)
            (split_name (fst (grocery_list ! i))) (store_id (find_best_single_store db grocery_list)) = None
          \<longrightarrow> items ! i = fallback_item (split_name (fst (grocery_list ! i))) (snd (grocery_list ! i)))"
proof -
  let ?sid = "store_id (find_best_single_store db grocery_list)"
  obtain items t where c: "calculate_store_items db grocery_list ?sid = (items, t)"
    by (cases "calculate_store_items db grocery_list ?sid")
  have "items_by_store (optimize_grocery_list db grocery_list prefs True) = [(?sid, items)]"
    by (simp add: optimize_grocery_list_def Let_def c)
  moreover have "length items = length grocery_list"
    using store_items_length [of db grocery_list ?sid] by (simp add: c)
  moreover have "\<forall>i < length grocery_list.
      find_lowest_price_for_ingredient_in_store (prices db) (split_name (fst (grocery_list ! i))) ?sid = None
      \<longrightarrow> items ! i = fallback_item (split_name (fst (grocery_list ! i))) (snd (grocery_list ! i))"
    using store_items_nth_unpriced [of _ grocery_list db ?sid] by (simp add: c)
  ultimately show ?thesis by blast
qed

lemma saffron_store: "find_best_single_store catalog_without_saffron saffron_basket = fresh_mart"
  by (simp add: find_best_single_store_def catalog_without_saffron_def saffron_basket_def
      best_store_step_def)

theorem unpriced_item_default_price_witness:
  "items_by_store (optimize_grocery_list catalog_without_saffron saffron_basket example_prefs True) =
     [(''store_1'', [fallback_item ''saffron'' 2])]"
proof -
  obtain items where
    a: "items_by_store (optimize_grocery_list catalog_without_saffron saffron_basket example_prefs True)
         = [(store_id (find_best_single_store catalog_without_saffron saffron_basket), items)]"
    and b: "length items = length saffron_basket"
    and c: "\<forall>i < length saffron_basket.
          find_lowest_price_for_ingredient_in_store (prices catalog_without_saffron)
            (split_name (fst (saffron_basket ! i)))
            (store_id (find_best_single_store catalog_without_saffron saffron_basket)) = None
          \<longrightarrow> items ! i = fallback_item (split_name (fst (saffron_basket ! i))) (snd (saffron_basket ! i))"
    using unpriced_item_default_price [of catalog_without_saffron saffron_basket example_prefs]
    by blast
  have "items ! 0 = fallback_item ''saffron'' 2"
    using c by (simp add: saffron_basket_def catalog_without_saffron_def)
  moreover have "length items = 1" using b by (simp add: saffron_basket_def)
  ultimately have "items = [fallback_item ''saffron'' 2]"
    by (cases items) simp_all
  then show ?thesis using a by (simp add: saffron_store fresh_mart_def)
qed

text \<open>
  Claim C5, as stated, fails: the plan records no warning for an unpriced ingredient.
  The plan for a basket whose ingredient has no price entry is equal, component by
  component, to the plan for a catalog that prices the ingredient, so nothing in the plan
  identifies the line item as unpriced.
\<close>

theorem unpriced_item_leaves_no_trace:
  "optimize_grocery_list catalog_without_saffron saffron_basket example_prefs True =
   optimize_grocery_list catalog_with_saffron saffron_basket example_prefs True
   \<and> find_lowest_price_for_ingredient_in_store (prices catalog_without_saffron) ''saffron''
        (store_id (find_best_single_store catalog_without_saffron saffron_basket)) = None
   \<and> find_lowest_price_for_ingredient_in_store (prices catalog_with_saffron) ''saffron''
        (store_id (find_best_single_store catalog_with_saffron saffron_basket)) \<noteq> None"
  by (simp add: optimize_grocery_list_def catalog_without_saffron_def catalog_with_saffron_def
      saffron_basket_def fresh_mart_def
      find_best_single_store_def best_store_step_def calculate_store_items_def
      store_items_step_def group_by_section_def find_substitutions_def substitutions_step_def
      find_all_prices_for_ingredient_def lower_examples Let_def)

section \<open>Properties of the weekly scheduler\<close>

lemma last_filter_last: "xs \<noteq> [] \<Longrightarrow> P (last xs) \<Longrightarrow> last (filter P xs) = last xs"
  by (induction xs rule: rev_induct) simp_all

lemma sorted_le_last:
  assumes "sorted (map f zs)" and "y \<in> set zs"
  shows "f y \<le> f (last zs)"
proof -
  from assms(2) have ne: "zs \<noteq> []" by auto
  then have zs: "zs = butlast zs @ [last zs]" by simp
  have "sorted (map f (butlast zs) @ [f (last zs)])"
    using assms(1) zs by (metis list.simps(8,9) map_append)
  then have "\<forall>x \<in> set (butlast zs). f x \<le> f (last zs)"
    by (simp add: sorted_append)
  moreover have "y \<in> set (butlast zs) \<or> y = last zs"
    using assms(2) zs by (metis Un_iff empty_iff insert_iff list.set(1,2) set_append)
  ultimately show ?thesis by auto
qed

lemma hd_filter_index:
  "filter P xs \<noteq> [] \<Longrightarrow>
   \<exists>i<length xs. hd (filter P xs) = xs ! i \<and> P (xs ! i) \<and> (\<forall>j<i. \<not> P (xs ! j))"
proof (induction xs)
  case Nil
  then show ?case by simp
next
  case (Cons x xs)
  show ?case
  proof (cases "P x")
    case True
    then show ?thesis by (intro exI [of _ 0]) simp
  next
    case False
    with Cons.prems have "filter P xs \<noteq> []" by simp
    from Cons.IH [OF this] obtain i where i: "i < length xs" "hd (filter P xs) = xs ! i"
      "P (xs ! i)" "\<forall>j<i. \<not> P (xs ! j)" by blast
    show ?thesis
    proof (intro exI [of _ "Suc i"] conjI allI impI)
      show "Suc i < length (x # xs)" using i(1) by simp
      show "hd (filter P (x # xs)) = (x # xs) ! Suc i" using False i(2) by simp
      show "P ((x # xs) ! Suc i)" using i(3) by simp
      fix j assume "j < Suc i"
      then show "\<not> P ((x # xs) ! j)" using False i(4) by (cases j) simp_all
    qed
  qed
qed

lemma sort_reverse_hd:
  fixes f :: "'a \<Rightarrow> int"
  assumes "xs \<noteq> []"
  shows "\<exists>i<length xs. hd (sort_reverse f xs) = xs ! i
           \<and> (\<forall>j<length xs. f (xs ! j) \<le> f (xs ! i))
           \<and> (\<forall>j<i. f (xs ! j) < f (xs ! i))"
proof -
  define zs where "zs = sort_key f (rev xs)"
  define M where "M = f (last zs)"
  define P where "P y \<longleftrightarrow> f y = M" for y
  have "length zs = length xs" by (simp add: zs_def)
  then have ne: "zs \<noteq> []" using assms by (cases zs) auto
  have srt: "sorted (map f zs)" unfolding zs_def by (rule sorted_sort_key)
  have set_zs: "set zs = set xs" by (simp add: zs_def)
  have le: "f y \<le> M" if "y \<in> set xs" for y
    using sorted_le_last [OF srt, of y] that by (simp add: set_zs M_def)
  have "P (last zs)" by (simp add: P_def M_def)
  then have "last zs = last (filter P zs)"
    using last_filter_last [OF ne, of P] by simp
  also have "filter P zs = filter P (rev xs)"
    unfolding zs_def P_def by (rule sort_key_stable)
  also have "last (filter P (rev xs)) = hd (filter P xs)"
    by (simp add: rev_filter [symmetric] last_rev)
  finally have "last zs = hd (filter P xs)" .
  then have hd: "hd (sort_reverse f xs) = hd (filter P xs)"
    by (simp add: sort_reverse_def hd_rev zs_def)
  have "last zs \<in> set xs" using last_in_set [OF ne] by (simp add: set_zs)
  with \<open>P (last zs)\<close> have "filter P xs \<noteq> []" by (auto simp: filter_empty_conv)
  from hd_filter_index [OF this] obtain i where i: "i < length xs"
    "hd (filter P xs) = xs ! i" "P (xs ! i)" "\<forall>j<i. \<not> P (xs ! j)" by blast
  have fi: "f (xs ! i) = M" using i(3) by (simp add: P_def)
  show ?thesis
  proof (intro exI [of _ i] conjI allI impI)
    show "i < length xs" by (rule i(1))
    show "hd (sort_reverse f xs) = xs ! i" using hd i(2) by simp
    fix j assume "j < length xs"
    then show "f (xs ! j) \<le> f (xs ! i)" using le [of "xs ! j"] fi by simp
  next
    fix j assume j: "j < i"
    then have "f (xs ! j) \<le> M" using le [of "xs ! j"] i(1) by simp
    moreover have "f (xs ! j) \<noteq> M" using i(4) j by (simp add: P_def)
    ultimately show "f (xs ! j) < f (xs ! i)" using fi by simp
  qed
qed

lemma sort_reverse_length: "length (sort_reverse f xs) = length xs"
  by (simp add: sort_reverse_def)

lemma assign_slot_first_max:
  assumes "pool \<noteq> []"
  shows "\<exists>i<length pool.
           (\<forall>j<length pool. score_recipe_for_assignment (pool ! j) tracker prefs
                              \<le> score_recipe_for_assignment (pool ! i) tracker prefs)
         \<and> (\<forall>j<i. score_recipe_for_assignment (pool ! j) tracker prefs
                    < score_recipe_for_assignment (pool ! i) tracker prefs)
         \<and> assign_slot prefs meal_pos (pool, assigned, tracker) =
             (take i pool @ drop (Suc i) pool, assigned[meal_pos := Some (pool ! i)],
              update_tracker (pool ! i) tracker)"
proof -
  define sc where "sc r = score_recipe_for_assignment r tracker prefs" for r
  define scored where "scored = map (\<lambda>(i, r). (sc r, i, r)) (enumerate 0 pool)"
  have len: "length scored = length pool" by (simp add: scored_def)
  have nth: "scored ! j = (sc (pool ! j), j, pool ! j)" if "j < length pool" for j
    using that by (simp add: scored_def nth_enumerate_eq)
  have ne: "scored \<noteq> []" using assms len by (cases scored) auto
  from sort_reverse_hd [OF ne, of fst] obtain i where i: "i < length scored"
    "hd (sort_reverse fst scored) = scored ! i"
    "\<forall>j<length scored. fst (scored ! j) \<le> fst (scored ! i)"
    "\<forall>j<i. fst (scored ! j) < fst (scored ! i)" by blast
  have il: "i < length pool" using i(1) len by simp
  have "length (sort_reverse fst scored) = length scored" by (rule sort_reverse_length)
  then have sne: "sort_reverse fst scored \<noteq> []"
    using ne by (cases "sort_reverse fst scored") auto
  then obtain rest where srt: "sort_reverse fst scored = (sc (pool ! i), i, pool ! i) # rest"
    using i(2) nth [OF il] by (cases "sort_reverse fst scored") simp_all
  have slot: "assign_slot prefs meal_pos (pool, assigned, tracker) =
      (case sort_reverse fst scored of
         [] \<Rightarrow> (pool, assigned, tracker)
       | (_, recipe_idx, selected_recipe) # _ \<Rightarrow>
           (take recipe_idx pool @ drop (Suc recipe_idx) pool,
            assigned[meal_pos := Some selected_recipe],
            update_tracker selected_recipe tracker))"
    using assms unfolding assign_slot_def scored_def sc_def by (simp add: Let_def)
  have le: "sc (pool ! j) \<le> sc (pool ! i)" if j: "j < length pool" for j
  proof -
    have "fst (scored ! j) \<le> fst (scored ! i)" using i(3) j len by simp
    then show ?thesis by (simp only: nth [OF j] nth [OF il] fst_conv)
  qed
  have less: "sc (pool ! j) < sc (pool ! i)" if j: "j < i" for j
  proof -
    have jl: "j < length pool" using j il by simp
    have "fst (scored ! j) < fst (scored ! i)" using i(4) j by simp
    then show ?thesis by (simp only: nth [OF jl] nth [OF il] fst_conv)
  qed
  have "assign_slot prefs meal_pos (pool, assigned, tracker) =
          (take i pool @ drop (Suc i) pool, assigned[meal_pos := Some (pool ! i)],
           update_tracker (pool ! i) tracker)"
    by (simp add: slot srt)
  with il le less show ?thesis unfolding sc_def by blast
qed

lemma assign_slot_prefs: "assign_slot prefs1 = assign_slot prefs2"
  unfolding assign_slot_def score_recipe_for_assignment_def ..

lemma assign_all_prefs: "assign_all prefs1 pool = assign_all prefs2 pool"
  unfolding assign_all_def assign_slot_prefs [of prefs1 prefs2] ..

lemma fold_day_slots:
  "fold (\<lambda>day_idx st. fold f [day_idx * 3 ..< day_idx * 3 + 3] st) [0..<n] s = fold f [0..<n * 3] s"
proof (induction n arbitrary: s)
  case 0
  show ?case by simp
next
  case (Suc n)
  have "[0..<Suc n * 3] = [0..<n * 3] @ [n * 3..<n * 3 + 3]"
    using upt_add_eq_append [of 0 "n * 3" 3] by (simp add: add.commute)
  then show ?case using Suc.IH by simp
qed

lemma assign_all_flat:
  "assign_all prefs pool = fold (assign_slot prefs) [0..<21] (pool, replicate 21 None, Map.empty)"
  unfolding assign_all_def fold_day_slots by (simp add: days_of_week_def)

lemma mset_remove_nth:
  assumes "i < length xs"
  shows "add_mset (xs ! i) (mset (take i xs @ drop (Suc i) xs)) = mset xs"
proof -
  have "mset xs = mset (take i xs @ xs ! i # drop (Suc i) xs)"
    using id_take_nth_drop [OF assms] by simp
  then show ?thesis by simp
qed

lemma assign_slot_empty: "assign_slot prefs k ([], assigned, tracker) = ([], assigned, tracker)"
  by (simp add: assign_slot_def)

lemma slot_table_update:
  assumes "length placed < 21"
  shows "(map Some placed @ replicate (21 - length placed) None)[length placed := Some r] =
         map Some (placed @ [r]) @ replicate (21 - length (placed @ [r])) None"
proof -
  have "replicate (21 - length placed) (None :: 'a option) =
        None # replicate (21 - length (placed @ [r])) None"
    using assms by (cases "21 - length placed") simp_all
  then show ?thesis
    using list_update_length [of "map Some placed" None _ "Some r"] by simp
qed

lemma slots_invariant:
  assumes "k \<le> 21"
  shows "\<exists>placed rest tracker.
           fold (assign_slot prefs) [0..<k] (pool, replicate 21 None, Map.empty) =
             (rest, map Some placed @ replicate (21 - length placed) None, tracker)
         \<and> length placed = min k (length pool)
         \<and> mset placed + mset rest = mset pool"
  using assms
proof (induction k)
  case 0
  show ?case by (intro exI [of _ "[]"] exI [of _ pool] exI [of _ Map.empty]) simp
next
  case (Suc k)
  then obtain placed rest tracker where
    st: "fold (assign_slot prefs) [0..<k] (pool, replicate 21 None, Map.empty) =
           (rest, map Some placed @ replicate (21 - length placed) None, tracker)"
    and len: "length placed = min k (length pool)"
    and ms: "mset placed + mset rest = mset pool"
    by auto
  have sz: "length placed + length rest = length pool"
    using arg_cong [OF ms, of size] by simp
  have step: "fold (assign_slot prefs) [0..<Suc k] (pool, replicate 21 None, Map.empty) =
      assign_slot prefs k (rest, map Some placed @ replicate (21 - length placed) None, tracker)"
    by (simp add: st)
  show ?case
  proof (cases "rest = []")
    case True
    have "length placed = min (Suc k) (length pool)" using sz len True by simp
    then show ?thesis
      using ms True unfolding step True assign_slot_empty by blast
  next
    case False
    then have "0 < length rest" by simp
    then have k: "length placed = k" "k < length pool" using sz len by linarith+
    from assign_slot_first_max [OF False] obtain i where i: "i < length rest"
      and res: "assign_slot prefs k (rest, map Some placed @ replicate (21 - length placed) None, tracker)
          = (take i rest @ drop (Suc i) rest,
             (map Some placed @ replicate (21 - length placed) None)[k := Some (rest ! i)],
             update_tracker (rest ! i) tracker)"
      by blast
    have tab: "(map Some placed @ replicate (21 - length placed) None)[k := Some (rest ! i)] =
        map Some (placed @ [rest ! i]) @ replicate (21 - length (placed @ [rest ! i])) None"
      using slot_table_update [of placed "rest ! i"] k(1) Suc.prems by simp
    have "length (placed @ [rest ! i]) = min (Suc k) (length pool)" using k by simp
    moreover have "mset (placed @ [rest ! i]) + mset (take i rest @ drop (Suc i) rest) = mset pool"
    proof -
      have "mset (placed @ [rest ! i]) + mset (take i rest @ drop (Suc i) rest) =
            mset placed + add_mset (rest ! i) (mset (take i rest @ drop (Suc i) rest))"
        by simp
      also have "\<dots> = mset placed + mset rest"
        by (simp only: mset_remove_nth [OF i])
      finally show ?thesis by (simp only: ms)
    qed
    ultimately show ?thesis
      unfolding step res tab by blast
  qed
qed

lemma expand_servings_fold:
  "fold (\<lambda>(r, servings) recipe_assignments. recipe_assignments @ replicate (nat servings) r) plan acc
   = acc @ concat (map (\<lambda>(r, servings). replicate (nat servings) r) plan)"
  by (induction plan arbitrary: acc) (auto)

lemma expand_servings_concat:
  "expand_servings plan = concat (map (\<lambda>(r, servings). replicate (nat servings) r) plan)"
  by (simp add: expand_servings_def expand_servings_fold)

lemma length_expand_servings:
  "length (expand_servings plan) = (\<Sum>(r, servings)\<leftarrow>plan. nat servings)"
  unfolding expand_servings_concat
  by (induction plan) auto

lemma day_slots: "[d * 3 ..< d * 3 + 3] = [d * 3, d * 3 + 1, d * 3 + 2]"
  by (simp add: upt_rec)

lemma day_meals_recipes:
  "map meal_recipe (day_meals assigned d dname) =
   concat (map (slot_recipes assigned) [d * 3 ..< d * 3 + 3])"
  by (simp add: day_meals_def meal_types_def enumerate_simps day_slots slot_recipes_def Let_def
      split: option.splits)

lemma concat_day_slots:
  "concat (map (\<lambda>d. concat (map g [d * 3 ..< d * 3 + 3])) [0..<n]) = concat (map g [0..<n * 3])"
proof (induction n)
  case 0
  show ?case by simp
next
  case (Suc n)
  have "[0..<Suc n * 3] = [0..<n * 3] @ [n * 3..<n * 3 + 3]"
    using upt_add_eq_append [of 0 "n * 3" 3] by (simp add: add.commute)
  then show ?case using Suc.IH by simp
qed

lemma map_enumerate_index:
  "map (\<lambda>(d, x). h d) (enumerate 0 xs) = map h [0..<length xs]"
proof -
  have "map (\<lambda>(d, x). h d) (enumerate 0 xs) = map (h \<circ> fst) (enumerate 0 xs)"
    by (simp add: case_prod_unfold comp_def)
  also have "\<dots> = map h (map fst (enumerate 0 xs))"
    by (simp only: map_map)
  also have "\<dots> = map h [0..<length xs]"
    by simp
  finally show ?thesis .
qed

lemma daily_meals_recipes:
  "map meal_recipe (concat (map meals (create_daily_meals wd plan prefs))) =
   concat (map (slot_recipes (assigned_slots plan prefs)) [0..<21])"
proof -
  let ?A = "assigned_slots plan prefs"
  have "map meal_recipe (concat (map meals (create_daily_meals wd plan prefs))) =
        concat (map (\<lambda>(d, dname). map meal_recipe (day_meals ?A d dname)) (enumerate 0 days_of_week))"
    by (simp add: create_daily_meals_def Let_def map_concat comp_def case_prod_unfold)
  also have "\<dots> = concat (map (\<lambda>(d, dname). concat (map (slot_recipes ?A) [d * 3 ..< d * 3 + 3]))
                        (enumerate 0 days_of_week))"
    by (simp only: day_meals_recipes)
  also have "\<dots> = concat (map (\<lambda>d. concat (map (slot_recipes ?A) [d * 3 ..< d * 3 + 3]))
                        [0..<length days_of_week])"
    by (simp only: map_enumerate_index)
  also have "\<dots> = concat (map (slot_recipes ?A) [0..<length days_of_week * 3])"
    by (rule concat_day_slots)
  finally show ?thesis by (simp add: days_of_week_def)
qed

lemma slot_recipes_table:
  "concat (map (slot_recipes (map Some placed @ replicate k None))
             [0..<length (map Some placed @ replicate k None)]) = placed"
proof -
  let ?A = "map Some placed @ replicate k None"
  have "map (slot_recipes ?A) [0..<length ?A] =
        map (\<lambda>x. case x of Some r \<Rightarrow> [r] | None \<Rightarrow> []) (map (\<lambda>s. ?A ! s) [0..<length ?A])"
    by (simp add: slot_recipes_def del: length_append length_map length_replicate)
  also have "map (\<lambda>s. ?A ! s) [0..<length ?A] = ?A" by (rule map_nth)
  finally have "concat (map (slot_recipes ?A) [0..<length ?A]) =
      concat (map (\<lambda>x. case x of Some r \<Rightarrow> [r] | None \<Rightarrow> []) ?A)" by simp
  also have "\<dots> = placed"
  proof -
    have none: "concat (map (\<lambda>x. case x of Some r \<Rightarrow> [r] | None \<Rightarrow> [])
                     (replicate k (None :: recipe option))) = []"
      by (induction k) simp_all
    have some: "concat (map (\<lambda>x. case x of Some r \<Rightarrow> [r] | None \<Rightarrow> []) (map Some placed)) = placed"
      by (induction placed) simp_all
    show ?thesis by (simp only: map_append concat_append none some append_Nil2)
  qed
  finally show ?thesis .
qed

text \<open>
  Claim C10. The slot table holds the placed occurrences in its first slots and is empty
  after them; their number is the minimum of 21 and the total number of servings (a
  count below one contributing none); the placed occurrences together with the unplaced
  ones are exactly the expanded pool, so each filled slot consumed one occurrence and the
  excess is in no slot; the daily meals list the placed occurrences in slot order.
\<close>

theorem scheduler_fills_min_slots:
  "\<exists>placed.
      assigned_slots plan prefs = map Some placed @ replicate (21 - length placed) None
    \<and> length placed = min 21 (\<Sum>(r, servings)\<leftarrow>plan. nat servings)
    \<and> mset placed + mset (unplaced plan prefs) = mset (expand_servings plan)
    \<and> map meal_recipe (concat (map meals (create_daily_meals today_weekday plan prefs))) = placed"
proof -
  from slots_invariant [of 21 prefs "expand_servings plan"]
  obtain placed rest tracker where
    st: "fold (assign_slot prefs) [0..<21] (expand_servings plan, replicate 21 None, Map.empty) =
           (rest, map Some placed @ replicate (21 - length placed) None, tracker)"
    and len: "length placed = min 21 (length (expand_servings plan))"
    and ms: "mset placed + mset rest = mset (expand_servings plan)"
    by auto
  have tab: "assigned_slots plan prefs = map Some placed @ replicate (21 - length placed) None"
    by (simp add: assigned_slots_def assign_all_flat st)
  have un: "unplaced plan prefs = rest"
    by (simp add: unplaced_def assign_all_flat st)
  have l21: "length (map Some placed @ replicate (21 - length placed) (None :: recipe option)) = 21"
    using len by simp
  have "map meal_recipe (concat (map meals (create_daily_meals today_weekday plan prefs))) = placed"
    unfolding daily_meals_recipes tab
    using slot_recipes_table [of placed "21 - length placed"] unfolding l21 .
  with tab len ms un show ?thesis
    by (auto simp: length_expand_servings)
qed

lemma example_reuse:
  "reuse_bonus rice_bowl broccoli_used = 0" "reuse_bonus broccoli_rice broccoli_used = 1"
  by (simp_all add: reuse_bonus_def rice_bowl_def broccoli_rice_def rice_def broccoli_def
      broccoli_used_def)

lemma assigned_slots_expand:
  assumes "expand_servings plan1 = expand_servings plan2"
  shows "assigned_slots plan1 prefs1 = assigned_slots plan2 prefs2"
  using assms assign_all_prefs [of prefs1 "expand_servings plan2" prefs2]
  by (simp add: assigned_slots_def)

lemma example_scores:
  "score_recipe_for_assignment rice_bowl broccoli_used example_prefs = 0"
  "score_recipe_for_assignment broccoli_rice broccoli_used example_prefs = 10"
  by (simp_all add: score_recipe_for_assignment_def example_reuse)

section \<open>Properties of the grocery basket\<close>

lemma dict_add_keys_present:
  "k \<in> fst ` set d \<Longrightarrow> map fst (dict_add k v d) = map fst d"
  by (induction d) fastforce+

lemma dict_add_keys_absent:
  "k \<notin> fst ` set d \<Longrightarrow> map fst (dict_add k v d) = map fst d @ [k]"
  by (induction d) auto

lemma dict_add_key_set: "fst ` set (dict_add k v d) = insert k (fst ` set d)"
proof (cases "k \<in> fst ` set d")
  case True
  have "set (map fst (dict_add k v d)) = set (map fst d)"
    by (simp only: dict_add_keys_present [OF True])
  with True show ?thesis by auto
next
  case False
  have "set (map fst (dict_add k v d)) = set (map fst d @ [k])"
    by (simp only: dict_add_keys_absent [OF False])
  then show ?thesis by auto
qed

lemma dict_add_value:
  "entry_value (dict_add k v d) k' = (if k' = k then entry_value d k + v else entry_value d k')"
  by (induction d) (auto simp: entry_value_def)

lemma dict_add_distinct:
  "distinct (map fst d) \<Longrightarrow> distinct (map fst (dict_add k v d))"
  by (cases "k \<in> fst ` set d") (simp_all add: dict_add_keys_present dict_add_keys_absent)

lemma grocery_step_keys:
  "fst ` set (grocery_list_step (r, s) gl) =
   fst ` set gl \<union> ingredient_key ` set (ingredients r)"
proof -
  have "fst ` set (fold (\<lambda>ing gl. dict_add (ingredient_key ing) (amount ing * real_of_int s) gl)
           ings gl) = fst ` set gl \<union> ingredient_key ` set ings" for ings
  proof (induction ings arbitrary: gl)
    case Nil
    show ?case by simp
  next
    case (Cons i ings)
    show ?case by (simp add: Cons.IH dict_add_key_set)
  qed
  then show ?thesis by (simp add: grocery_list_step_def)
qed

lemma grocery_step_distinct:
  "distinct (map fst gl) \<Longrightarrow> distinct (map fst (grocery_list_step (r, s) gl))"
proof -
  have "distinct (map fst gl) \<Longrightarrow>
        distinct (map fst (fold (\<lambda>ing gl. dict_add (ingredient_key ing) (amount ing * real_of_int s) gl)
           ings gl))" for ings
  proof (induction ings arbitrary: gl)
    case Nil
    then show ?case by simp
  next
    case (Cons i ings)
    show ?case using Cons.IH [OF dict_add_distinct [OF Cons.prems]] by simp
  qed
  then show "distinct (map fst gl) \<Longrightarrow> distinct (map fst (grocery_list_step (r, s) gl))"
    by (simp add: grocery_list_step_def)
qed

lemma grocery_step_value:
  "entry_value (grocery_list_step (r, s) gl) k =
   entry_value gl k +
   (\<Sum>ing\<leftarrow>filter (\<lambda>ing. ingredient_key ing = k) (ingredients r). amount ing * real_of_int s)"
proof -
  have "entry_value (fold (\<lambda>ing gl. dict_add (ingredient_key ing) (amount ing * real_of_int s) gl)
           ings gl) k =
        entry_value gl k +
        (\<Sum>ing\<leftarrow>filter (\<lambda>ing. ingredient_key ing = k) ings. amount ing * real_of_int s)" for ings
  proof (induction ings arbitrary: gl)
    case Nil
    show ?case by simp
  next
    case (Cons i ings)
    show ?case by (simp add: Cons.IH dict_add_value)
  qed
  then show ?thesis by (simp add: grocery_list_step_def)
qed

lemma grocery_fold:
  "distinct (map fst gl) \<Longrightarrow>
   distinct (map fst (fold grocery_list_step plan gl))
   \<and> fst ` set (fold grocery_list_step plan gl) =
       fst ` set gl \<union> {ingredient_key ing | r s ing. (r, s) \<in> set plan \<and> ing \<in> set (ingredients r)}
   \<and> entry_value (fold grocery_list_step plan gl) k = entry_value gl k + key_total plan k"
proof (induction plan arbitrary: gl)
  case Nil
  then show ?case by (simp add: key_total_def)
next
  case (Cons e plan)
  obtain r s where e: "e = (r, s)" by (cases e)
  have d: "distinct (map fst (grocery_list_step (r, s) gl))"
    by (rule grocery_step_distinct [OF Cons.prems])
  have kt: "key_total ((r, s) # plan) k =
      (\<Sum>ing\<leftarrow>filter (\<lambda>ing. ingredient_key ing = k) (ingredients r). amount ing * real_of_int s)
      + key_total plan k"
    by (simp add: key_total_def)
  from Cons.IH [OF d] show ?case
    unfolding e fold_simps kt grocery_step_keys grocery_step_value
    by (auto simp: add.assoc)
qed

lemma standardize_units_canonical:
  "u \<notin> convertible_units \<Longrightarrow> standardize_units n a u = (a, u)"
  by (simp add: standardize_units_def convertible_units_def)

lemma spec_grocery_list_canonical:
  assumes "\<forall>(r, s) \<in> set plan. \<forall>ing \<in> set (ingredients r). unit ing \<notin> convertible_units"
  shows "calculate_grocery_list plan = spec_grocery_list plan"
  unfolding calculate_grocery_list_def spec_grocery_list_def
proof (rule fold_cong [OF refl refl])
  fix e assume e: "e \<in> set plan"
  obtain r s where rs: "e = (r, s)" by (cases e)
  have u: "\<forall>ing \<in> set (ingredients r). unit ing \<notin> convertible_units"
    using assms e rs by auto
  have "fold (\<lambda>ing gl. dict_add (ingredient_key ing) (amount ing * real_of_int s) gl)
          (ingredients r) =
        fold (\<lambda>ing gl.
                case standardize_units (ing_name ing) (amount ing) (unit ing) of
                  (standard_amount, standard_unit) \<Rightarrow>
                    dict_add (ing_name ing @ '' ('' @ standard_unit @ '')'')
                      (standard_amount * real_of_int s) gl)
          (ingredients r)"
  proof (intro ext, rule fold_cong [OF refl refl])
    fix ing assume "ing \<in> set (ingredients r)"
    then have "unit ing \<notin> convertible_units" using u by blast
    then show "(\<lambda>gl. dict_add (ingredient_key ing) (amount ing * real_of_int s) gl) =
        (\<lambda>gl. case standardize_units (ing_name ing) (amount ing) (unit ing) of
                  (standard_amount, standard_unit) \<Rightarrow>
                    dict_add (ing_name ing @ '' ('' @ standard_unit @ '')'')
                      (standard_amount * real_of_int s) gl)"
      by (simp add: standardize_units_canonical ingredient_key_def)
  qed
  then show "grocery_list_step e =
      (\<lambda>(r, servings) grocery_list.
             fold (\<lambda>ing gl.
                     case standardize_units (ing_name ing) (amount ing) (unit ing) of
                       (standard_amount, standard_unit) \<Rightarrow>
                         dict_add (ing_name ing @ '' ('' @ standard_unit @ '')'')
                           (standard_amount * real_of_int servings) gl)
               (ingredients r) grocery_list) e"
    by (intro ext) (simp add: rs grocery_list_step_def)
qed

text \<open>
  Claim C6, amended. The grocery basket has one entry per key of ingredient name and unit
  as the recipes state them; the value of a key is the sum of amount times servings over
  the ingredients of all entries of the selection with that key. No unit is converted:
  the basket is the normalized one of the specification when no ingredient has a unit
  that \<open>standardize_units\<close> converts.
\<close>

theorem grocery_list_sums_by_raw_key:
  "distinct (map fst (calculate_grocery_list plan))
   \<and> fst ` set (calculate_grocery_list plan) =
       {ingredient_key ing | r s ing. (r, s) \<in> set plan \<and> ing \<in> set (ingredients r)}
   \<and> (\<forall>k \<in> fst ` set (calculate_grocery_list plan).
         map_of (calculate_grocery_list plan) k = Some (key_total plan k))
   \<and> ((\<forall>(r, s) \<in> set plan. \<forall>ing \<in> set (ingredients r). unit ing \<notin> convertible_units)
        \<longrightarrow> calculate_grocery_list plan = spec_grocery_list plan)"
proof (intro conjI ballI impI)
  note f = grocery_fold [of "[]" plan, simplified, folded calculate_grocery_list_def]
  show "distinct (map fst (calculate_grocery_list plan))" using f by simp
  show "fst ` set (calculate_grocery_list plan) =
       {ingredient_key ing | r s ing. (r, s) \<in> set plan \<and> ing \<in> set (ingredients r)}"
    using f by simp
  fix k assume k: "k \<in> fst ` set (calculate_grocery_list plan)"
  have "entry_value (calculate_grocery_list plan) k = key_total plan k"
    using f [of k] by (simp add: entry_value_def)
  moreover obtain v where "map_of (calculate_grocery_list plan) k = Some v"
    using k by (cases "map_of (calculate_grocery_list plan) k") (auto simp: map_of_eq_None_iff)
  ultimately show "map_of (calculate_grocery_list plan) k = Some (key_total plan k)"
    by (simp add: entry_value_def)
next
  assume "\<forall>(r, s) \<in> set plan. \<forall>ing \<in> set (ingredients r). unit ing \<notin> convertible_units"
  then show "calculate_grocery_list plan = spec_grocery_list plan"
    by (rule spec_grocery_list_canonical)
qed

theorem grocery_list_sums_by_raw_key_witness:
  "calculate_grocery_list grams_plan = spec_grocery_list grams_plan
   \<and> map_of (calculate_grocery_list grams_plan) ''rice (g)'' = Some 300"
proof -
  note inst = grocery_list_sums_by_raw_key [of grams_plan]
  have units: "\<forall>(r, s) \<in> set grams_plan. \<forall>ing \<in> set (ingredients r). unit ing \<notin> convertible_units"
    by (simp add: grams_plan_def broccoli_rice_def rice_bowl_def rice_def broccoli_def
        convertible_units_def)
  have "ingredient_key rice = ''rice (g)''" by (simp add: ingredient_key_def rice_def)
  moreover have "(rice_bowl, 1) \<in> set grams_plan" "rice \<in> set (ingredients rice_bowl)"
    by (simp_all add: grams_plan_def rice_bowl_def)
  ultimately have "\<exists>r s ing. ''rice (g)'' = ingredient_key ing
      \<and> (r, s) \<in> set grams_plan \<and> ing \<in> set (ingredients r)"
    by (intro exI [of _ rice_bowl] exI [of _ 1] exI [of _ rice]) simp
  then have "''rice (g)'' \<in>
      {ingredient_key ing | r s ing. (r, s) \<in> set grams_plan \<and> ing \<in> set (ingredients r)}"
    by simp
  then have k: "''rice (g)'' \<in> fst ` set (calculate_grocery_list grams_plan)"
    using inst by simp
  have kt: "key_total grams_plan ''rice (g)'' = 300"
    by (simp add: key_total_def grams_plan_def broccoli_rice_def rice_bowl_def rice_def
        broccoli_def ingredient_key_def)
  have "map_of (calculate_grocery_list grams_plan) ''rice (g)'' =
        Some (key_total grams_plan ''rice (g)'')"
    using inst k by blast
  moreover have "calculate_grocery_list grams_plan = spec_grocery_list grams_plan"
    using inst units by blast
  ultimately show ?thesis by (simp only: kt simp_thms)
qed

text \<open>
  Claim C6, as stated, fails: for one recipe with 1 kg of rice and one with 500 g of rice
  the basket has the two keys \<^verbatim>\<open>rice (kg)\<close> and \<^verbatim>\<open>rice (g)\<close> with the raw amounts, where
  normalization gives the single key \<^verbatim>\<open>rice (g)\<close> with 1500.
\<close>

theorem grocery_list_keeps_raw_units:
  "calculate_grocery_list mixed_units_plan = [(''rice (kg)'', 1), (''rice (g)'', 500)]
   \<and> spec_grocery_list mixed_units_plan = [(''rice (g)'', 1500)]"
  by (simp add: calculate_grocery_list_def grocery_list_step_def spec_grocery_list_def
      mixed_units_plan_def rice_kg_def rice_g_def ingredient_key_def standardize_units_def)

section \<open>Properties of the recipe selector\<close>


lemma optimize_raises:
  assumes "nutrition_penalty_raises recipes prefs days"
  shows "optimize_meal_plan (Some solve) recipes prefs days = Inl TypeError"
  using assms by (simp add: optimize_meal_plan_def)


lemma optimize_failure:
  assumes "solve (build_model recipes prefs days) = (status, x)"
    and "\<not> (status = OPTIMAL \<or> status = FEASIBLE)"
    and "\<not> nutrition_penalty_raises recipes prefs days"
  shows "optimize_meal_plan (Some solve) recipes prefs days = Inr []"
  using assms by (auto simp: optimize_meal_plan_def relax_and_solve_def Let_def)






lemma linear_value_unit:
  assumes "i < n"
  shows "linear_value ((replicate n 0)[i := 1]) x = x i"
proof -
  have "linear_value ((replicate n 0)[i := 1]) x = (\<Sum>j\<leftarrow>[0..<n]. if j = i then x i else 0)"
    by (auto simp: linear_value_def nth_list_update intro!: arg_cong [of _ _ sum_list] map_cong)
  also have "\<dots> = (\<Sum>j\<in>{0..<n}. if j = i then x i else 0)"
    by (simp add: interv_sum_list_conv_sum_set_nat)
  also have "\<dots> = x i" using assms by simp
  finally show ?thesis .
qed

lemma satisfies_build_model:
  assumes "satisfies_model (build_model recipes prefs days) x"
  shows "\<forall>i<length recipes. x i \<in> \<int> \<and> 0 \<le> x i \<and> x i \<le> 10"
    and "list_all (constraint_holds x)
           (nutrition_constraints (map total_protein_g recipes) (weekly_target (target_protein_g prefs) days))"
    and "list_all (constraint_holds x)
           (nutrition_constraints (map total_carbs_g recipes) (weekly_target (target_carbs_g prefs) days))"
    and "list_all (constraint_holds x)
           (nutrition_constraints (map total_fat_g recipes) (weekly_target (target_fat_g prefs) days))"
    and "list_all (constraint_holds x)
           (nutrition_constraints (map total_calories recipes) (weekly_target (target_calories prefs) days))"
    and "linear_value (map total_cost recipes) x \<le> weekly_budget prefs"
    and "\<forall>i<length recipes. x i \<le> real_of_int (max_repeats_per_week prefs)"
    and "real_of_int (3 * days) \<le> linear_value (replicate (length recipes) 1) x"
proof -
  note s = assms [unfolded satisfies_model_def build_model_def Let_def, simplified]
  have "\<forall>i<length recipes. (\<exists>n. x i = real_of_int n) \<and> 0 \<le> x i \<and> x i \<le> 10"
    using s by (simp add: list_all_iff)
  then show "\<forall>i<length recipes. x i \<in> \<int> \<and> 0 \<le> x i \<and> x i \<le> 10"
    by fastforce
  show "list_all (constraint_holds x)
           (nutrition_constraints (map total_protein_g recipes) (weekly_target (target_protein_g prefs) days))"
    using s by simp
  show "list_all (constraint_holds x)
           (nutrition_constraints (map total_carbs_g recipes) (weekly_target (target_carbs_g prefs) days))"
    using s by simp
  show "list_all (constraint_holds x)
           (nutrition_constraints (map total_fat_g recipes) (weekly_target (target_fat_g prefs) days))"
    using s by simp
  show "list_all (constraint_holds x)
           (nutrition_constraints (map total_calories recipes) (weekly_target (target_calories prefs) days))"
    using s by simp
  show "linear_value (map total_cost recipes) x \<le> weekly_budget prefs"
    using s by simp
  show "real_of_int (3 * days) \<le> linear_value (replicate (length recipes) 1) x"
    using s by simp
  have "\<forall>i<length recipes.
          linear_value ((replicate (length recipes) 0)[i := 1]) x
            \<le> real_of_int (max_repeats_per_week prefs)"
    using s by (simp add: list_all_iff)
  then show "\<forall>i<length recipes. x i \<le> real_of_int (max_repeats_per_week prefs)"
    by (simp add: linear_value_unit)
qed



lemma upt_3: "[0..<3] = [0, 1, 2]"
  by (simp add: upt_rec)




lemma infeasible_returns_empty:
  assumes "solver_sound_on solve (build_model recipes prefs days)"
    and "\<not> (\<exists>x. satisfies_model (build_model recipes prefs days) x)"
    and nr: "\<not> nutrition_penalty_raises recipes prefs days"
  shows "optimize_meal_plan (Some solve) recipes prefs days = Inr []"
proof -
  obtain status x where sx: "solve (build_model recipes prefs days) = (status, x)"
    by (cases "solve (build_model recipes prefs days)")
  have "\<not> (status = OPTIMAL \<or> status = FEASIBLE)"
    using assms(1,2) sx by (auto simp: solver_sound_on_def)
  from optimize_failure [of solve recipes prefs days status x, OF sx this nr] show ?thesis .
qed

lemma no_targets_no_raise:
  "\<not> nutrition_penalty_raises recipes example_prefs days"
  "\<not> nutrition_penalty_raises recipes low_budget_prefs days"
  by (simp_all add: nutrition_penalty_raises_def weekly_target_def low_budget_prefs_def
      example_prefs_def)

text \<open>
  With a daily calorie target and the pool of three recipes the function raises
  \<^verbatim>\<open>TypeError\<close>, whatever the solver: no selection is returned for a positive target.
\<close>

lemma calorie_target_raises:
  "optimize_meal_plan (Some solve) recipe_pool calorie_prefs 7 = Inl TypeError"
  by (rule optimize_raises)
     (simp add: nutrition_penalty_raises_def weekly_target_def calorie_prefs_def
        example_prefs_def recipe_pool_def)

lemma relax_and_solve_empty: "relax_and_solve solve m recipes prefs days = []"
  by (simp add: relax_and_solve_def)



lemma low_budget_infeasible:
  "\<not> (\<exists>x. satisfies_model (build_model recipe_pool low_budget_prefs 7) x)"
proof
  assume "\<exists>x. satisfies_model (build_model recipe_pool low_budget_prefs 7) x"
  then obtain x where sat: "satisfies_model (build_model recipe_pool low_budget_prefs 7) x" ..
  note c = satisfies_build_model [OF sat]
  have pos: "0 \<le> x 0" "0 \<le> x (Suc 0)" "0 \<le> x (Suc (Suc 0))"
    using c(1) by (simp_all add: recipe_pool_def)
  have cost: "x 0 * 1.8 + x (Suc 0) * 3.6 + x (Suc (Suc 0)) * 1.8 \<le> 10"
    using c(6) by (simp add: linear_value_def recipe_pool_def low_budget_prefs_def
        rice_bowl_def broccoli_rice_def steamed_broccoli_def upt_3)
  have tot: "21 \<le> x 0 + x (Suc 0) + x (Suc (Suc 0))"
    using c(8) by (simp add: linear_value_def recipe_pool_def upt_3)
  from pos cost tot show False by linarith
qed

text \<open>
  Claim C1. For the pool of three recipes and a weekly budget of 10, below the cost of any
  21 servings, the program is infeasible, and with every solver whose reported solutions
  satisfy the program \<^verbatim>\<open>optimize_meal_plan\<close> returns the empty list: \<^verbatim>\<open>_relax_and_solve\<close>
  changes no constraint, does not solve again and has no outcome other than the empty
  selection.
\<close>

theorem infeasible_budget_returns_empty_list:
  assumes "solver_sound_on solve (build_model recipe_pool low_budget_prefs 7)"
  shows "optimize_meal_plan (Some solve) recipe_pool low_budget_prefs 7 = Inr []"
  by (rule infeasible_returns_empty [OF assms low_budget_infeasible no_targets_no_raise(2)])

theorem infeasible_budget_returns_empty_list_witness:
  "solver_sound_on failing_solver (build_model recipe_pool low_budget_prefs 7)
   \<and> optimize_meal_plan (Some failing_solver) recipe_pool low_budget_prefs 7 = Inr []"
proof -
  have s: "solver_sound_on failing_solver (build_model recipe_pool low_budget_prefs 7)"
    by (simp add: solver_sound_on_def failing_solver_def)
  from s infeasible_budget_returns_empty_list [OF s] show ?thesis by simp
qed

section \<open>The score and the number of distinct reused ingredients\<close>

lemma reuse_bonus_names:
  "reuse_bonus r tracker =
   int (length (filter (\<lambda>n. tracker n \<noteq> None) (map ing_name (ingredients r))))"
  by (simp add: reuse_bonus_count filter_map comp_def domIff)

lemma distinct_reuse_count_le: "int (distinct_reuse_count r tracker) \<le> reuse_bonus r tracker"
  unfolding reuse_bonus_names distinct_reuse_count_def
  by (simp only: of_nat_le_iff length_remdups_leq)

lemma distinct_reuse_count_eq:
  assumes "distinct (map ing_name (ingredients r))"
  shows "int (distinct_reuse_count r tracker) = reuse_bonus r tracker"
proof -
  have "distinct (filter (\<lambda>n. tracker n \<noteq> None) (map ing_name (ingredients r)))"
    using assms by (rule distinct_filter)
  then show ?thesis
    unfolding reuse_bonus_names distinct_reuse_count_def by (simp only: distinct_remdups_id)
qed

text \<open>
  Claim C8, amended. At the same scheduling step (the same usage counter), a candidate
  whose number of distinct reused ingredient names is strictly higher is never scored
  lower than a candidate that lists no ingredient name twice; and every score is
  non-negative.
\<close>

theorem score_distinct_reuse_monotone:
  "(distinct (map ing_name (ingredients r1))
      \<and> distinct_reuse_count r1 tracker < distinct_reuse_count r2 tracker \<longrightarrow>
      score_recipe_for_assignment r1 tracker prefs \<le> score_recipe_for_assignment r2 tracker prefs)
   \<and> 0 \<le> score_recipe_for_assignment r tracker prefs"
proof (intro conjI impI)
  assume a: "distinct (map ing_name (ingredients r1))
      \<and> distinct_reuse_count r1 tracker < distinct_reuse_count r2 tracker"
  have "reuse_bonus r1 tracker = int (distinct_reuse_count r1 tracker)"
    using a distinct_reuse_count_eq [of r1 tracker] by simp
  also have "\<dots> < int (distinct_reuse_count r2 tracker)" using a by simp
  also have "\<dots> \<le> reuse_bonus r2 tracker" by (rule distinct_reuse_count_le)
  finally show "score_recipe_for_assignment r1 tracker prefs
      \<le> score_recipe_for_assignment r2 tracker prefs"
    by (simp add: score_recipe_for_assignment_def)
next
  show "0 \<le> score_recipe_for_assignment r tracker prefs"
    by (simp add: score_recipe_for_assignment_def reuse_bonus_count)
qed

theorem score_distinct_reuse_monotone_witness:
  "distinct (map ing_name (ingredients rice_bowl))
   \<and> distinct_reuse_count rice_bowl broccoli_used < distinct_reuse_count broccoli_rice broccoli_used
   \<and> score_recipe_for_assignment rice_bowl broccoli_used example_prefs
       \<le> score_recipe_for_assignment broccoli_rice broccoli_used example_prefs
   \<and> 0 \<le> score_recipe_for_assignment rice_bowl broccoli_used example_prefs"
proof -
  have d: "distinct (map ing_name (ingredients rice_bowl))"
    by (simp add: rice_bowl_def)
  have c: "distinct_reuse_count rice_bowl broccoli_used < distinct_reuse_count broccoli_rice broccoli_used"
    by (simp add: distinct_reuse_count_def rice_bowl_def broccoli_rice_def rice_def broccoli_def
        broccoli_used_def)
  from d c score_distinct_reuse_monotone
    [of rice_bowl broccoli_used broccoli_rice example_prefs rice_bowl]
  show ?thesis by blast
qed

text \<open>
  Claim C8, as stated, fails: the score counts every ingredient entry whose name is in the
  usage counter, not every distinct name. With rice and broccoli in the counter, the
  recipe listing rice three times has reuse count 1 and score 30, the recipe of rice and
  broccoli has reuse count 2 and score 20.
\<close>

theorem repeated_ingredient_outscores:
  "distinct_reuse_count triple_rice both_used < distinct_reuse_count broccoli_rice both_used
   \<and> score_recipe_for_assignment broccoli_rice both_used example_prefs
       < score_recipe_for_assignment triple_rice both_used example_prefs"
  by (simp add: distinct_reuse_count_def score_recipe_for_assignment_def reuse_bonus_def
      triple_rice_def rice_bowl_def broccoli_rice_def rice_def broccoli_def both_used_def)

section \<open>The substitutions and the specified rule\<close>

lemma get_store_name_find:
  "get_store_name sts sid =
     (case find (\<lambda>st. store_id st = sid) sts of Some st \<Rightarrow> store_name st | None \<Rightarrow> ''Unknown Store'')"
  by (induction sts) simp_all


lemma substitutions_step_spec:
  "substitutions_step db (k, q) subs =
   subs @ (case spec_substitution db (split_name k) q of Some s \<Rightarrow> [s] | None \<Rightarrow> [])"
proof -
  have m: "find_all_prices_for_ingredient db (split_name k) = matching_entries db (split_name k)"
    by (simp add: find_all_prices_for_ingredient_def matching_entries_def)
  have n: "get_store_name (stores db) sid = store_name_of db sid" for sid
    by (simp add: get_store_name_find store_name_of_def)
  have l: "(1 < length xs) = (2 \<le> length xs)" for xs :: "price_entry list" by auto
  show ?thesis
    by (simp add: substitutions_step_def spec_substitution_def m n l Let_def)
qed

lemma find_substitutions_fold:
  "fold (substitutions_step db) gl subs =
   subs @ List.map_filter (\<lambda>(k, q). spec_substitution db (split_name k) q) gl"
proof (induction gl arbitrary: subs)
  case Nil
  show ?case by (simp add: map_filter_simps)
next
  case (Cons e gl)
  obtain k q where e: "e = (k, q)" by (cases e)
  have "fold (substitutions_step db) (e # gl) subs =
        substitutions_step db (k, q) subs
          @ List.map_filter (\<lambda>(k, q). spec_substitution db (split_name k) q) gl"
    using Cons.IH [of "substitutions_step db e subs"] by (simp add: e)
  then show ?case
    by (cases "spec_substitution db (split_name k) q")
       (simp_all add: e substitutions_step_spec [of db k q subs] map_filter_simps)
qed




lemma spec_substitution_nonneg:
  assumes "\<forall>pe \<in> set (prices db). 0 \<le> price_per_unit pe"
  shows "spec_substitution db name q = None"
proof (cases "2 \<le> length (matching_entries db name)")
  case False
  then show ?thesis by (simp add: spec_substitution_def Let_def)
next
  case True
  define ps where "ps = sort_key price_per_unit (matching_entries db name)"
  have len: "2 \<le> length ps" using True by (simp add: ps_def)
  have srt: "sorted (map price_per_unit ps)" unfolding ps_def by (rule sorted_sort_key)
  have sub: "set ps \<subseteq> set (prices db)" by (auto simp: ps_def matching_entries_def)
  have l01: "0 < length ps" "1 < length ps" using len by linarith+
  have "map price_per_unit ps ! 0 \<le> map price_per_unit ps ! 1"
    using sorted_nth_mono [OF srt, of 0 1] l01 by simp
  then have "price_per_unit (ps ! 0) \<le> price_per_unit (ps ! 1)"
    by (simp only: nth_map [OF l01(1)] nth_map [OF l01(2)])
  moreover have "ps ! 0 \<in> set ps" by (rule nth_mem [OF l01(1)])
  then have "0 \<le> price_per_unit (ps ! 0)" using sub assms by blast
  ultimately have "\<not> price_per_unit (ps ! 1) < price_per_unit (ps ! 0) * 0.9" by simp
  then show ?thesis by (simp add: spec_substitution_def Let_def ps_def [symmetric])
qed

lemma no_substitutions_nonneg:
  assumes "\<forall>pe \<in> set (prices db). 0 \<le> price_per_unit pe"
  shows "find_substitutions db grocery_list = []"
proof -
  have "List.map_filter (\<lambda>(k, q). spec_substitution db (split_name k) q) grocery_list = []"
    by (induction grocery_list)
       (simp_all add: map_filter_simps spec_substitution_nonneg [OF assms] split: prod.splits)
  then show ?thesis
    by (simp add: find_substitutions_def find_substitutions_fold)
qed

section \<open>The slot table and the first-maximum rule\<close>

lemma first_max_index_props:
  "ss \<noteq> [] \<Longrightarrow>
   first_max_index ss < length ss
   \<and> (\<forall>j<length ss. ss ! j \<le> ss ! first_max_index ss)
   \<and> (\<forall>j<first_max_index ss. ss ! j < ss ! first_max_index ss)"
proof (induction ss)
  case Nil
  then show ?case by simp
next
  case (Cons s ss)
  show ?case
  proof (cases "\<forall>t \<in> set ss. t \<le> s")
    case True
    have "(s # ss) ! j \<le> s" if "j < length (s # ss)" for j
      using that True by (cases j) auto
    with True show ?thesis by simp
  next
    case False
    then obtain t where t: "t \<in> set ss" "s < t" by auto
    then have ne: "ss \<noteq> []" by auto
    let ?i = "first_max_index ss"
    from Cons.IH [OF ne] have i: "?i < length ss" "\<forall>j<length ss. ss ! j \<le> ss ! ?i"
      "\<forall>j<?i. ss ! j < ss ! ?i" by simp_all
    obtain jt where "jt < length ss" "ss ! jt = t" using t(1) by (auto simp: in_set_conv_nth)
    then have st: "s < ss ! ?i" using i(2) t(2) by force
    have le: "(s # ss) ! j \<le> ss ! ?i" if "j < length (s # ss)" for j
      using that st i(2) by (cases j) auto
    have less: "(s # ss) ! j < ss ! ?i" if "j < Suc ?i" for j
      using that st i(3) by (cases j) auto
    have fm: "first_max_index (s # ss) = Suc ?i" using False by simp
    show ?thesis unfolding fm using i(1) le less by simp
  qed
qed

lemma first_max_unique:
  fixes ss :: "int list"
  assumes "i < length ss" "\<forall>j<length ss. ss ! j \<le> ss ! i" "\<forall>j<i. ss ! j < ss ! i"
    and "i' < length ss" "\<forall>j<length ss. ss ! j \<le> ss ! i'" "\<forall>j<i'. ss ! j < ss ! i'"
  shows "i = i'"
proof (rule ccontr)
  assume "i \<noteq> i'"
  then consider "i < i'" | "i' < i" by linarith
  then show False
  proof cases
    case 1
    then have "ss ! i < ss ! i'" using assms(6) by simp
    moreover have "ss ! i' \<le> ss ! i" using assms(2,4) by simp
    ultimately show False by simp
  next
    case 2
    then have "ss ! i' < ss ! i" using assms(3) by simp
    moreover have "ss ! i \<le> ss ! i'" using assms(1,5) by simp
    ultimately show False by simp
  qed
qed

lemma assign_slot_spec:
  assumes "pool \<noteq> []"
  shows "assign_slot prefs meal_pos (pool, assigned, tracker) =
     (let i = first_max_index (map (\<lambda>r. score_recipe_for_assignment r tracker prefs) pool)
      in (take i pool @ drop (Suc i) pool, assigned[meal_pos := Some (pool ! i)],
          update_tracker (pool ! i) tracker))"
proof -
  define ss where "ss = map (\<lambda>r. score_recipe_for_assignment r tracker prefs) pool"
  have len: "length ss = length pool" by (simp add: ss_def)
  have nth: "ss ! j = score_recipe_for_assignment (pool ! j) tracker prefs" if "j < length pool" for j
    using that by (simp add: ss_def)
  from assign_slot_first_max [OF assms, of tracker prefs meal_pos assigned]
  obtain i where i: "i < length pool"
    and mx: "\<forall>j<length pool. score_recipe_for_assignment (pool ! j) tracker prefs
                \<le> score_recipe_for_assignment (pool ! i) tracker prefs"
    and fst: "\<forall>j<i. score_recipe_for_assignment (pool ! j) tracker prefs
                < score_recipe_for_assignment (pool ! i) tracker prefs"
    and res: "assign_slot prefs meal_pos (pool, assigned, tracker) =
             (take i pool @ drop (Suc i) pool, assigned[meal_pos := Some (pool ! i)],
              update_tracker (pool ! i) tracker)"
    by blast
  have a: "i < length ss" using i len by simp
  have b: "\<forall>j<length ss. ss ! j \<le> ss ! i" using mx i len nth by simp
  have c: "\<forall>j<i. ss ! j < ss ! i" using fst i nth by simp
  have "ss \<noteq> []" using assms len by (cases ss) auto
  from first_max_index_props [OF this]
  have "first_max_index ss = i"
    using first_max_unique [of "first_max_index ss" ss i] a b c by blast
  then show ?thesis by (simp add: res ss_def [symmetric] Let_def)
qed

lemma fold_assign_spec:
  assumes "a + k \<le> length A" and "\<forall>j. a \<le> j \<and> j < length A \<longrightarrow> A ! j = None"
  shows "fst (snd (fold (assign_slot prefs) [a..<a + k] (pool, A, T))) =
         take a A @ spec_schedule k pool T prefs @ drop (a + k) A"
  using assms
proof (induction k arbitrary: a pool A T)
  case 0
  show ?case by simp
next
  case (Suc k)
  have al: "a < length A" using Suc.prems(1) by simp
  have up: "[a..<a + Suc k] = a # [Suc a..<Suc a + k]" by (simp add: upt_conv_Cons)
  show ?case
  proof (cases "pool = []")
    case True
    have Aa: "A ! a = None" using Suc.prems(2) al by simp
    have pre: "Suc a + k \<le> length A" "\<forall>j. Suc a \<le> j \<and> j < length A \<longrightarrow> A ! j = None"
      using Suc.prems by simp_all
    have "fst (snd (fold (assign_slot prefs) [a..<a + Suc k] (pool, A, T))) =
          fst (snd (fold (assign_slot prefs) [Suc a..<Suc a + k] (pool, A, T)))"
      unfolding up using True by (simp add: assign_slot_empty)
    also have "\<dots> = take (Suc a) A @ spec_schedule k pool T prefs @ drop (Suc a + k) A"
      by (rule Suc.IH [OF pre])
    also have "take (Suc a) A = take a A @ [None]"
      using take_Suc_conv_app_nth [OF al] Aa by simp
    finally show ?thesis using True by simp
  next
    case False
    define i where "i = first_max_index (map (\<lambda>r. score_recipe_for_assignment r T prefs) pool)"
    define A' where "A' = A[a := Some (pool ! i)]"
    define pool' where "pool' = take i pool @ drop (Suc i) pool"
    define T' where "T' = update_tracker (pool ! i) T"
    have step: "assign_slot prefs a (pool, A, T) = (pool', A', T')"
      using assign_slot_spec [OF False, of prefs a A T]
      by (simp add: i_def A'_def pool'_def T'_def Let_def)
    have pre: "Suc a + k \<le> length A'" "\<forall>j. Suc a \<le> j \<and> j < length A' \<longrightarrow> A' ! j = None"
      using Suc.prems by (simp_all add: A'_def)
    have "fst (snd (fold (assign_slot prefs) [a..<a + Suc k] (pool, A, T))) =
          fst (snd (fold (assign_slot prefs) [Suc a..<Suc a + k] (pool', A', T')))"
      unfolding up by (simp add: step)
    also have "\<dots> = take (Suc a) A' @ spec_schedule k pool' T' prefs @ drop (Suc a + k) A'"
      by (rule Suc.IH [OF pre])
    also have "take (Suc a) A' = take a A @ [Some (pool ! i)]"
      using take_Suc_conv_app_nth [of a A'] al by (simp add: A'_def)
    also have "drop (Suc a + k) A' = drop (a + Suc k) A"
      by (simp add: A'_def)
    finally show ?thesis
      using False by (simp add: i_def [symmetric] pool'_def T'_def Let_def)
  qed
qed

lemma assigned_slots_spec:
  "assigned_slots plan prefs = spec_schedule 21 (expand_servings plan) Map.empty prefs"
  using fold_assign_spec [of 0 21 "replicate 21 None" prefs "expand_servings plan" Map.empty]
  by (simp add: assigned_slots_def assign_all_flat)

lemma daily_meals_length: "length (create_daily_meals wd plan prefs) = 7"
  unfolding create_daily_meals_def Let_def by (simp add: days_of_week_def)

lemma daily_meals_of_day:
  assumes "d < 7"
  shows "meals (create_daily_meals wd plan prefs ! d) =
     concat (map (\<lambda>t. map (\<lambda>r. \<lparr>day = days_of_week ! d, meal_type = meal_types ! t, meal_recipe = r\<rparr>)
                         (slot_recipes (assigned_slots plan prefs) (d * 3 + t)))
               [0..<3])"
proof -
  have l: "d < length days_of_week" using assms by (simp add: days_of_week_def)
  have "create_daily_meals wd plan prefs ! d =
        \<lparr>date_offset = d + (7 - wd) mod 7,
         meals = day_meals (assigned_slots plan prefs) d (days_of_week ! d)\<rparr>"
    using l by (simp add: create_daily_meals_def Let_def nth_enumerate_eq)
  moreover have "day_meals A d dn =
     concat (map (\<lambda>t. map (\<lambda>r. \<lparr>day = dn, meal_type = meal_types ! t, meal_recipe = r\<rparr>)
                         (slot_recipes A (d * 3 + t))) [0..<3])" for A dn
    by (simp add: day_meals_def meal_types_def enumerate_simps slot_recipes_def Let_def upt_3
        split: option.splits)
  ultimately show ?thesis by simp
qed

text \<open>
  Claim C7. The slot table produced by the scheduler is the table of the specified rule:
  the 21 slots are filled in day-major, meal-type order, each with the occurrence at the
  first maximal score of the remaining occurrences. The week has seven days, and the meals
  of day \<open>d\<close> are the recipes of slots \<open>3 d\<close>, \<open>3 d + 1\<close>, \<open>3 d + 2\<close> as breakfast, lunch and
  dinner. Two runs on selections with the same expansion give the same slot table and the
  same daily meals. The first maximal position of a non-empty list of scores is a position
  of the list whose score is maximal and strictly above every earlier score.
\<close>

theorem schedule_follows_first_max_rule:
  "assigned_slots plan prefs = spec_schedule 21 (expand_servings plan) Map.empty prefs
   \<and> length (create_daily_meals today_weekday plan prefs) = 7
   \<and> (\<forall>d<7. meals (create_daily_meals today_weekday plan prefs ! d) =
          concat (map (\<lambda>t. map (\<lambda>r. \<lparr>day = days_of_week ! d, meal_type = meal_types ! t,
                                       meal_recipe = r\<rparr>)
                              (slot_recipes (assigned_slots plan prefs) (d * 3 + t)))
                    [0..<3]))
   \<and> (expand_servings plan = expand_servings plan' \<longrightarrow>
         assigned_slots plan prefs = assigned_slots plan' prefs'
         \<and> create_daily_meals today_weekday plan prefs
             = create_daily_meals today_weekday plan' prefs')
   \<and> (scores \<noteq> [] \<longrightarrow>
         first_max_index scores < length scores
         \<and> (\<forall>j<length scores. scores ! j \<le> scores ! first_max_index scores)
         \<and> (\<forall>j<first_max_index scores. scores ! j < scores ! first_max_index scores))"
proof (intro conjI allI impI)
  show "assigned_slots plan prefs = spec_schedule 21 (expand_servings plan) Map.empty prefs"
    by (rule assigned_slots_spec)
  show "length (create_daily_meals today_weekday plan prefs) = 7"
    by (rule daily_meals_length)
next
  fix d :: nat assume "d < 7"
  then show "meals (create_daily_meals today_weekday plan prefs ! d) =
          concat (map (\<lambda>t. map (\<lambda>r. \<lparr>day = days_of_week ! d, meal_type = meal_types ! t,
                                       meal_recipe = r\<rparr>)
                              (slot_recipes (assigned_slots plan prefs) (d * 3 + t)))
                    [0..<3])"
    by (rule daily_meals_of_day)
next
  assume e: "expand_servings plan = expand_servings plan'"
  show a: "assigned_slots plan prefs = assigned_slots plan' prefs'"
    by (rule assigned_slots_expand [OF e])
  show "create_daily_meals today_weekday plan prefs = create_daily_meals today_weekday plan' prefs'"
    by (simp add: create_daily_meals_def a)
next
  assume ne: "scores \<noteq> []"
  show "first_max_index scores < length scores"
    using first_max_index_props [OF ne] by simp
  show "\<And>j. j < length scores \<Longrightarrow> scores ! j \<le> scores ! first_max_index scores"
    using first_max_index_props [OF ne] by simp
  show "\<And>j. j < first_max_index scores \<Longrightarrow> scores ! j < scores ! first_max_index scores"
    using first_max_index_props [OF ne] by simp
qed

lemma spec_schedule_empty: "spec_schedule k [] tracker prefs = replicate k None"
  by (induction k) simp_all

lemma spec_schedule_step:
  assumes "0 < k" and "pool \<noteq> []"
  shows "spec_schedule k pool tracker prefs =
     (let i = first_max_index (map (\<lambda>r. score_recipe_for_assignment r tracker prefs) pool)
      in Some (pool ! i)
         # spec_schedule (k - 1) (take i pool @ drop (Suc i) pool)
             (update_tracker (pool ! i) tracker) prefs)"
  using assms by (cases k) simp_all

lemma three_dishes_expand:
  "expand_servings three_dishes = [steamed_broccoli, rice_bowl, broccoli_rice]"
  by (simp add: expand_servings_def three_dishes_def)

lemma three_dishes_schedule:
  "spec_schedule 21 [steamed_broccoli, rice_bowl, broccoli_rice] Map.empty example_prefs =
     [Some steamed_broccoli, Some broccoli_rice, Some rice_bowl] @ replicate 18 None"
proof -
  have s1: "score_recipe_for_assignment steamed_broccoli Map.empty example_prefs = 0"
    "score_recipe_for_assignment rice_bowl Map.empty example_prefs = 0"
    "score_recipe_for_assignment broccoli_rice Map.empty example_prefs = 0"
    by (simp_all add: score_recipe_for_assignment_def reuse_bonus_def steamed_broccoli_def
        rice_bowl_def broccoli_rice_def)
  have t1: "update_tracker steamed_broccoli Map.empty = [''broccoli'' \<mapsto> 1]"
    by (simp add: update_tracker_def steamed_broccoli_def broccoli_def)
  have s2: "score_recipe_for_assignment rice_bowl [''broccoli'' \<mapsto> 1] example_prefs = 0"
    "score_recipe_for_assignment broccoli_rice [''broccoli'' \<mapsto> 1] example_prefs = 10"
    by (simp_all add: score_recipe_for_assignment_def reuse_bonus_def rice_bowl_def
        broccoli_rice_def rice_def broccoli_def)
  have step1: "spec_schedule 21 [steamed_broccoli, rice_bowl, broccoli_rice] Map.empty example_prefs =
      Some steamed_broccoli # spec_schedule 20 [rice_bowl, broccoli_rice] [''broccoli'' \<mapsto> 1] example_prefs"
    by (subst spec_schedule_step) (simp_all add: s1 t1 Let_def)
  have step2: "spec_schedule 20 [rice_bowl, broccoli_rice] [''broccoli'' \<mapsto> 1] example_prefs =
      Some broccoli_rice
      # spec_schedule 19 [rice_bowl] (update_tracker broccoli_rice [''broccoli'' \<mapsto> 1]) example_prefs"
    by (subst spec_schedule_step) (simp_all add: s2 Let_def)
  have step3: "spec_schedule 19 [rice_bowl] T example_prefs =
      Some rice_bowl # spec_schedule 18 [] (update_tracker rice_bowl T) example_prefs" for T
    by (subst spec_schedule_step) (simp_all add: Let_def)
  show ?thesis
    by (simp only: step1 step2 step3 spec_schedule_empty append_Cons append_Nil)
qed

theorem schedule_follows_first_max_rule_witness:
  "assigned_slots three_dishes example_prefs =
     [Some steamed_broccoli, Some broccoli_rice, Some rice_bowl] @ replicate 18 None
   \<and> assigned_slots three_dishes example_prefs = assigned_slots three_dishes week_prefs
   \<and> meals (create_daily_meals 0 three_dishes example_prefs ! 0) =
       [\<lparr>day = ''Monday'', meal_type = ''breakfast'', meal_recipe = steamed_broccoli\<rparr>,
        \<lparr>day = ''Monday'', meal_type = ''lunch'', meal_recipe = broccoli_rice\<rparr>,
        \<lparr>day = ''Monday'', meal_type = ''dinner'', meal_recipe = rice_bowl\<rparr>]
   \<and> first_max_index [0, 10, 10] = 1"
proof -
  note inst = schedule_follows_first_max_rule
    [of three_dishes example_prefs 0 three_dishes week_prefs "[0, 10, 10]"]
  note c1 = inst [THEN conjunct1]
  note c3 = inst [THEN conjunct2, THEN conjunct2, THEN conjunct1]
  note c4 = inst [THEN conjunct2, THEN conjunct2, THEN conjunct2, THEN conjunct1]
  note c5 = inst [THEN conjunct2, THEN conjunct2, THEN conjunct2, THEN conjunct2]
  have tab: "assigned_slots three_dishes example_prefs =
     [Some steamed_broccoli, Some broccoli_rice, Some rice_bowl] @ replicate 18 None"
    using c1 by (simp only: three_dishes_expand three_dishes_schedule)
  have same: "assigned_slots three_dishes example_prefs = assigned_slots three_dishes week_prefs"
    using c4 [THEN mp, OF refl] by (rule conjunct1)
  have "(0::nat) < 7" by simp
  from c3 [rule_format, OF this]
  have day0: "meals (create_daily_meals 0 three_dishes example_prefs ! 0) =
       [\<lparr>day = ''Monday'', meal_type = ''breakfast'', meal_recipe = steamed_broccoli\<rparr>,
        \<lparr>day = ''Monday'', meal_type = ''lunch'', meal_recipe = broccoli_rice\<rparr>,
        \<lparr>day = ''Monday'', meal_type = ''dinner'', meal_recipe = rice_bowl\<rparr>]"
    by (simp add: tab slot_recipes_def days_of_week_def meal_types_def upt_3)
  have "[0, 10, 10 :: int] \<noteq> []" by simp
  from c5 [THEN mp, OF this] have "first_max_index [0, 10, 10] < length [0, 10, 10 :: int]"
    by (rule conjunct1)
  have fm: "first_max_index [0, 10, 10] = 1" by simp
  from tab same day0 fm show ?thesis by (intro conjI)
qed

end
